theory Spec2Isabelle
  imports Main "HOL-Library.AList"
begin

section \<open>Phone normalisation\<close>

text \<open>
  The three copies of \<^verbatim>\<open>normalizePhone\<close> (session service, telegram service, worker) are
  the same text:
  \<^verbatim>\<open>
  if (!phone) return "";
  let cleaned = phone.replace(/\D/g, "");
  if (cleaned.startsWith("09") && cleaned.length === 10) {
    cleaned = "251" + cleaned.substring(1);
  }
  return cleaned;
  \<close>
  The class \<^verbatim>\<open>\D\<close> of a JavaScript regular expression is every code unit outside
  \<^verbatim>\<open>[0-9]\<close>. A string is a list of characters; what remains after the replacement is
  ASCII digits only, so the length test counts the same in both worlds.
\<close>

definition is_digit :: "char \<Rightarrow> bool" where
  "is_digit c = (c \<in> set ''0123456789'')"

definition startsWith :: "string \<Rightarrow> string \<Rightarrow> bool" where
  "startsWith s p = (take (length p) s = p)"

definition substring_from :: "nat \<Rightarrow> string \<Rightarrow> string" where
  "substring_from n s = drop n s"

definition normalizePhone :: "string \<Rightarrow> string" where
  "normalizePhone phone =
     (if phone = [] then []
      else let cleaned = filter is_digit phone
           in if startsWith cleaned ''09'' \<and> length cleaned = 10
              then ''251'' @ substring_from 1 cleaned
              else cleaned)"

text \<open>
  The specification's wording of the normaliser, kept apart from the code's: strip the
  non-digits; when the digit string has exactly ten digits, the first \<open>0\<close> and the second
  \<open>9\<close>, put \<open>251\<close> in place of the leading \<open>0\<close>; otherwise the digit string as it is.
\<close>

definition trunk_form :: "string \<Rightarrow> bool" where
  "trunk_form digits =
     (length digits = 10 \<and> take 1 digits = ''0'' \<and> take 1 (drop 1 digits) = ''9'')"

definition normalize_spec :: "string \<Rightarrow> string" where
  "normalize_spec raw =
     (let digits = filter is_digit raw
      in if trunk_form digits then ''251'' @ tl digits else digits)"


section \<open>JavaScript values and objects\<close>

text \<open>
  A session is a plain JavaScript object whose fields hold primitive values. \<open>JTime t\<close> is a
  string in ISO-8601 form (the worker's \<^verbatim>\<open>new Date(...).toISOString()\<close>), kept as the
  instant \<open>t\<close> in milliseconds that \<^verbatim>\<open>new Date(string)\<close> reads back from it. Numbers are the
  integers the code handles (times in milliseconds, Telegram ids).
\<close>

datatype jsval = JUndefined | JNull | JBool bool | JNum int | JStr string | JTime int

type_synonym jsobj = "(string \<times> jsval) list"

fun truthy :: "jsval \<Rightarrow> bool" where
  "truthy JUndefined = False"
| "truthy JNull = False"
| "truthy (JBool b) = b"
| "truthy (JNum n) = (n \<noteq> 0)"
| "truthy (JStr s) = (s \<noteq> [])"
| "truthy (JTime t) = True"

text \<open>\<^verbatim>\<open>obj.k\<close>: the value of an absent property is \<^verbatim>\<open>undefined\<close>.\<close>

definition fld :: "jsobj \<Rightarrow> string \<Rightarrow> jsval" where
  "fld obj k = (case map_of obj k of None \<Rightarrow> JUndefined | Some v \<Rightarrow> v)"

text \<open>
  \<^verbatim>\<open>{ ...a, ...b }\<close>: the properties of \<open>a\<close> in their order, each property of \<open>b\<close>
  replacing the one of the same name where it stands and appended otherwise.
\<close>

definition spread :: "jsobj \<Rightarrow> jsobj \<Rightarrow> jsobj" where
  "spread a b = fold (\<lambda>(k, v). AList.update k v) b a"

text \<open>\<^verbatim>\<open>const { k, ...rest } = obj\<close>.\<close>

definition rest_without :: "string \<Rightarrow> jsobj \<Rightarrow> jsobj" where
  "rest_without k obj = AList.delete k obj"

text \<open>\<^verbatim>\<open>v || null\<close>.\<close>

definition or_null :: "jsval \<Rightarrow> jsval" where
  "or_null v = (if truthy v then v else JNull)"

text \<open>\<^verbatim>\<open>JSON.stringify\<close> of an object leaves out the properties whose value is undefined.\<close>

definition json_stringify :: "jsobj \<Rightarrow> jsobj" where
  "json_stringify obj = filter (\<lambda>(k, v). v \<noteq> JUndefined) obj"

text \<open>
  The conversion to a number that \<^verbatim>\<open>Date.now() > x\<close> applies to \<open>x\<close>; \<open>None\<close> is NaN, with
  which every comparison is false. A string holding a numeric literal does not occur where
  the code compares: the only writer of \<^verbatim>\<open>expires_at\<close> is the code that creates a session.
\<close>

fun to_number :: "jsval \<Rightarrow> int option" where
  "to_number (JNum n) = Some n"
| "to_number JNull = Some 0"
| "to_number (JBool b) = Some (if b then 1 else 0)"
| "to_number JUndefined = None"
| "to_number (JStr s) = None"
| "to_number (JTime t) = None"

text \<open>
  The instant of \<^verbatim>\<open>new Date(x)\<close>; \<open>None\<close> is an invalid date. A string that reads as a
  date is a \<open>JTime\<close>, so a \<open>JStr\<close> is one that does not.
\<close>

fun date_of :: "jsval \<Rightarrow> int option" where
  "date_of (JTime t) = Some t"
| "date_of (JNum n) = Some n"
| "date_of JNull = Some 0"
| "date_of (JBool b) = Some (if b then 1 else 0)"
| "date_of JUndefined = None"
| "date_of (JStr s) = None"

text \<open>\<^verbatim>\<open>s.split(" ")\<close>.\<close>

fun split_on :: "char \<Rightarrow> string \<Rightarrow> string list" where
  "split_on c [] = [[]]"
| "split_on c (x # xs) =
     (if x = c then [] # split_on c xs
      else (case split_on c xs of [] \<Rightarrow> [[x]] | w # ws \<Rightarrow> (x # w) # ws))"

text \<open>\<^verbatim>\<open>args[1]\<close>, undefined when the array is shorter.\<close>

definition second_arg :: "string list \<Rightarrow> jsval" where
  "second_arg args = (case args of _ # t # _ \<Rightarrow> JStr t | _ \<Rightarrow> JUndefined)"

definition validatePhoneNumber :: "jsval \<Rightarrow> bool" where
  "validatePhoneNumber phone =
     (case phone of
        JStr s \<Rightarrow>
          if s = [] then False
          else let cleaned = filter is_digit s
               in 10 \<le> length cleaned \<and> length cleaned \<le> 15
      | _ \<Rightarrow> False)"

text \<open>
  \<^verbatim>\<open>validateWebhookUrl\<close>: an absent URL is accepted; otherwise the URL parser of the platform
  decides, which is a parameter here: \<open>is_https url\<close> stands for
  \<^verbatim>\<open>new URL(url).protocol === "https:"\<close>, false when the parser throws.
\<close>

definition validateWebhookUrl :: "(jsval \<Rightarrow> bool) \<Rightarrow> jsval \<Rightarrow> bool" where
  "validateWebhookUrl is_https url = (if \<not> truthy url then True else is_https url)"

section \<open>Messages, replies and effects\<close>

record contact_card =
  phone_number :: string
  first_name :: string
  user_id :: "int option"

text \<open>\<^verbatim>\<open>contact.user_id\<close> as a value: Telegram leaves the field out for a non-user.\<close>

definition user_id_val :: "contact_card \<Rightarrow> jsval" where
  "user_id_val c = (case user_id c of None \<Rightarrow> JUndefined | Some u \<Rightarrow> JNum u)"

datatype reply =
    Welcome
  | InvalidSession
  | AlreadyVerified
  | SecurityCheckRequired
  | SecurityError
  | SessionExpiredRetry
  | VerificationFailed
  | VerificationComplete string
  | SharePrompt
  | InvalidOrExpired
  | CannotForward
  | NoActiveVerification
  | PhoneMismatch
  | VerifiedReturn

text \<open>
  What a handler sends out: a message to a chat, or the POST to the webhook URL with its
  JSON body.
\<close>

datatype effect = Reply int reply | WebhookPost jsval jsobj

datatype http_response = Json nat jsobj

record tg_message =
  msg_chat :: int
  msg_from :: int
  msg_text :: "string option"
  msg_contact :: "contact_card option"

section \<open>The in-process server: the store\<close>

text \<open>
  \<^verbatim>\<open>createMemoryStorage\<close> keeps a \<^verbatim>\<open>Map\<close> from token to session object. A \<^verbatim>\<open>Map\<close>
  iterates in insertion order, and setting an existing key keeps its place: an association
  list under \<open>AList.update\<close>.
\<close>

type_synonym store = "(string \<times> jsobj) list"

definition create :: "store \<Rightarrow> string \<Rightarrow> jsobj \<Rightarrow> store \<times> string" where
  "create verifications token data = (AList.update token data verifications, token)"

text \<open>The callback that \<open>create\<close> hands to \<^verbatim>\<open>setTimeout(..., 600000)\<close>.\<close>

definition create_timeout :: "store \<Rightarrow> string \<Rightarrow> store" where
  "create_timeout verifications token =
     (case map_of verifications token of
        Some data \<Rightarrow>
          if fld data ''status'' = JStr ''pending''
          then AList.delete token verifications else verifications
      | None \<Rightarrow> verifications)"

definition get :: "store \<Rightarrow> string \<Rightarrow> jsobj option" where
  "get verifications token = map_of verifications token"

definition update :: "store \<Rightarrow> string \<Rightarrow> jsobj \<Rightarrow> store \<times> bool" where
  "update verifications token data =
     (case map_of verifications token of
        Some existing \<Rightarrow> (AList.update token (spread existing data) verifications, True)
      | None \<Rightarrow> (verifications, False))"

definition findByChatId :: "store \<Rightarrow> jsval \<Rightarrow> (string \<times> jsobj) option" where
  "findByChatId verifications chatId =
     find (\<lambda>(token, data). fld data ''chat_id'' = chatId \<and> fld data ''status'' = JStr ''pending'')
       verifications"

section \<open>The in-process server: session service and routes\<close>

text \<open>
  The token is the draw of \<^verbatim>\<open>uuidv4()\<close> and \<open>now\<close> the reading of \<^verbatim>\<open>Date.now()\<close>; both are
  arguments.
\<close>

definition sessionData_of :: "int \<Rightarrow> string \<Rightarrow> jsval \<Rightarrow> jsval \<Rightarrow> jsobj" where
  "sessionData_of now phone webhook_url client_secret =
     [(''status'', JStr ''pending''),
      (''expected_phone'', JStr (normalizePhone phone)),
      (''webhook_url'', or_null webhook_url),
      (''client_secret'', or_null client_secret),
      (''created_at'', JNum now),
      (''expires_at'', JNum (now + 600000))]"

definition createSession ::
  "store \<Rightarrow> string \<Rightarrow> int \<Rightarrow> string \<Rightarrow> jsval \<Rightarrow> jsval \<Rightarrow> store \<times> string \<times> jsobj" where
  "createSession storage token now phone webhook_url client_secret =
     (let sessionData = sessionData_of now phone webhook_url client_secret
      in (fst (create storage token sessionData), token, sessionData))"

definition js_gt :: "int \<Rightarrow> jsval \<Rightarrow> bool" where
  "js_gt a v = (case to_number v of Some b \<Rightarrow> a > b | None \<Rightarrow> False)"

definition getSession :: "store \<Rightarrow> string \<Rightarrow> int \<Rightarrow> store \<times> jsobj option" where
  "getSession storage token now =
     (case get storage token of
        None \<Rightarrow> (storage, None)
      | Some session \<Rightarrow>
          if truthy (fld session ''expires_at'') \<and> js_gt now (fld session ''expires_at'')
          then (fst (update storage token [(''status'', JStr ''expired'')]),
                Some (AList.update ''status'' (JStr ''expired'') session))
          else (storage, Some session))"

text \<open>\<^verbatim>\<open>GET /api/check/:token\<close>.\<close>

definition check_route :: "store \<Rightarrow> string \<Rightarrow> int \<Rightarrow> store \<times> http_response" where
  "check_route storage token now =
     (case getSession storage token now of
        (storage', None) \<Rightarrow> (storage', Json 404 [(''error'', JStr ''Token not found'')])
      | (storage', Some session) \<Rightarrow>
          (storage', Json 200 (json_stringify (rest_without ''client_secret'' session))))"

section \<open>The in-process server: the bot handlers\<close>

definition bot_start :: "store \<Rightarrow> int \<Rightarrow> string \<Rightarrow> store \<times> effect list" where
  "bot_start storage chat text =
     (let token = second_arg (split_on CHR '' '' text)
      in case token of
           JStr t \<Rightarrow>
             if t = [] then (storage, [Reply chat Welcome])
             else (case get storage t of
                     None \<Rightarrow> (storage, [Reply chat InvalidSession])
                   | Some session \<Rightarrow>
                       if fld session ''status'' = JStr ''verified''
                       then (storage, [Reply chat AlreadyVerified])
                       else (fst (update storage t [(''chat_id'', JNum chat)]),
                             [Reply chat SecurityCheckRequired]))
         | _ \<Rightarrow> (storage, [Reply chat Welcome]))"

definition verified_update :: "int \<Rightarrow> contact_card \<Rightarrow> jsobj" where
  "verified_update now contact =
     [(''status'', JStr ''verified''),
      (''phone'', JStr (phone_number contact)),
      (''telegram_id'', user_id_val contact),
      (''first_name'', JStr (first_name contact)),
      (''verified_at'', JNum now)]"

definition webhook_body :: "string \<Rightarrow> jsobj \<Rightarrow> jsval \<Rightarrow> jsobj" where
  "webhook_body token updateData secret =
     json_stringify
       (spread (spread [(''event'', JStr ''verification_success''), (''token'', JStr token)]
                  updateData)
          [(''secret'', secret)])"

definition bot_on_contact ::
  "store \<Rightarrow> int \<Rightarrow> int \<Rightarrow> int \<Rightarrow> contact_card \<Rightarrow> store \<times> effect list" where
  "bot_on_contact storage now chat sender contact =
     (if user_id_val contact \<noteq> JNum sender then (storage, [Reply chat SecurityError])
      else case findByChatId storage (JNum chat) of
             None \<Rightarrow> (storage, [Reply chat SessionExpiredRetry])
           | Some (foundToken, session) \<Rightarrow>
               let telegramPhone = normalizePhone (phone_number contact);
                   expectedPhone = fld session ''expected_phone''
               in if JStr telegramPhone \<noteq> expectedPhone
                  then (storage, [Reply chat VerificationFailed])
                  else let updateData = verified_update now contact
                       in (fst (update storage foundToken updateData),
                           (if truthy (fld session ''webhook_url'')
                            then [WebhookPost (fld session ''webhook_url'')
                                    (webhook_body foundToken updateData
                                       (fld session ''client_secret''))]
                            else [])
                           @ [Reply chat (VerificationComplete (first_name contact))]))"

section \<open>The worker: the Firestore client\<close>

text \<open>
  The worker keeps the sessions as documents of a Firestore collection, keyed by token, and
  reaches them over REST. The collection is modelled as the same kind of association list;
  the order of a query's results is Firestore's, for which the order of the list stands.

  \<^verbatim>\<open>toFirestore\<close> encodes null, string, number and boolean fields and skips every other
  one, which among the values here is \<^verbatim>\<open>undefined\<close>.
\<close>

definition toFirestore :: "jsobj \<Rightarrow> jsobj" where
  "toFirestore data = filter (\<lambda>(k, v). v \<noteq> JUndefined) data"

text \<open>
  \<^verbatim>\<open>fromFirestore\<close> copies a field only under \<^verbatim>\<open>if (field.stringValue)\<close>,
  \<^verbatim>\<open>if (field.integerValue)\<close> or \<^verbatim>\<open>if (field.booleanValue)\<close>: a null, an empty string and
  \<^verbatim>\<open>false\<close> are dropped on reading. Firestore renders an integer as a non-empty decimal
  string, which is truthy whatever the number.
\<close>

fun readable :: "jsval \<Rightarrow> bool" where
  "readable (JStr s) = (s \<noteq> [])"
| "readable (JTime t) = True"
| "readable (JNum n) = True"
| "readable (JBool b) = b"
| "readable JNull = False"
| "readable JUndefined = False"

definition fromFirestore :: "jsobj \<Rightarrow> jsobj" where
  "fromFirestore doc_fields = filter (\<lambda>(k, v). readable v) doc_fields"

text \<open>
  \<^verbatim>\<open>createDoc\<close> is a PATCH of the document with no update mask (``Use patch instead of
  create to allow upsert or avoiding errors''): the document becomes the fields sent,
  whether or not it existed.
\<close>

definition createDoc :: "store \<Rightarrow> string \<Rightarrow> jsobj \<Rightarrow> store" where
  "createDoc docs ident data = AList.update ident (toFirestore data) docs"

text \<open>
  \<^verbatim>\<open>updateDoc\<close> is a PATCH whose update mask names the keys of \<open>data\<close>: a masked field
  present in the body is written, a masked field absent from the body (its value was
  undefined) is removed, every other field stays. A PATCH of a missing document creates it.
\<close>

definition updateDoc :: "store \<Rightarrow> string \<Rightarrow> jsobj \<Rightarrow> store" where
  "updateDoc docs ident data =
     (let old = (case map_of docs ident of None \<Rightarrow> [] | Some doc_fields \<Rightarrow> doc_fields)
      in AList.update ident
           (fold (\<lambda>(k, v). if v = JUndefined then AList.delete k else AList.update k v) data old)
           docs)"

text \<open>\<^verbatim>\<open>getDoc\<close>: null when the request fails (no such document) or the document has no fields.\<close>

definition getDoc :: "store \<Rightarrow> string \<Rightarrow> jsobj option" where
  "getDoc docs ident =
     (case map_of docs ident of
        None \<Rightarrow> None
      | Some doc_fields \<Rightarrow> if doc_fields = [] then None else Some (fromFirestore doc_fields))"

definition queryDocs :: "store \<Rightarrow> string \<Rightarrow> jsval \<Rightarrow> (string \<times> jsobj) list" where
  "queryDocs docs field_name v =
     map (\<lambda>(ident, doc_fields). (ident, fromFirestore doc_fields))
       (filter (\<lambda>(ident, doc_fields). fld doc_fields field_name = v) docs)"

section \<open>The worker: the HTTP handlers\<close>

text \<open>
  \<open>max_age\<close> is \<^verbatim>\<open>env.MAX_SESSION_AGE\<close> (0 when unset), \<open>bot_username\<close> is
  \<^verbatim>\<open>env.BOT_USERNAME\<close>, \<open>body\<close> the parsed request body.
\<close>

definition session_age :: "int \<Rightarrow> int" where
  "session_age max_age = (if max_age \<noteq> 0 then max_age else 3600)"

definition docData_of :: "int \<Rightarrow> int \<Rightarrow> string \<Rightarrow> jsobj \<Rightarrow> jsobj" where
  "docData_of now max_age phone body =
     [(''status'', JStr ''pending''),
      (''expected_phone'', JStr (normalizePhone phone)),
      (''webhook_url'', or_null (fld body ''webhook_url'')),
      (''client_secret'', or_null (fld body ''client_secret'')),
      (''created_at'', JTime now),
      (''expires_at'', JTime (now + session_age max_age * 1000))]"

definition handleInit ::
  "(jsval \<Rightarrow> bool) \<Rightarrow> string \<Rightarrow> int \<Rightarrow> store \<Rightarrow> string \<Rightarrow> int \<Rightarrow> jsobj
     \<Rightarrow> store \<times> http_response" where
  "handleInit is_https bot_username max_age docs token now body =
     (case fld body ''phone'' of
        JStr phone \<Rightarrow>
          if \<not> truthy (JStr phone) \<or> \<not> validatePhoneNumber (JStr phone)
          then (docs, Json 400 [(''error'', JStr ''Valid phone number is required'')])
          else if truthy (fld body ''webhook_url'')
                  \<and> \<not> validateWebhookUrl is_https (fld body ''webhook_url'')
          then (docs, Json 400 [(''error'', JStr ''Webhook URL must be a valid HTTPS URL'')])
          else (createDoc docs token (docData_of now max_age phone body),
                Json 200
                  [(''token'', JStr token),
                   (''bot_link'', JStr (''https://t.me/'' @ bot_username @ ''?start='' @ token)),
                   (''expires_in'', JNum (session_age max_age))])
      | _ \<Rightarrow> (docs, Json 400 [(''error'', JStr ''Valid phone number is required'')]))"

definition date_lt :: "jsval \<Rightarrow> int \<Rightarrow> bool" where
  "date_lt v now = (case date_of v of Some t \<Rightarrow> t < now | None \<Rightarrow> False)"

definition handleCheck :: "store \<Rightarrow> string \<Rightarrow> int \<Rightarrow> store \<times> http_response" where
  "handleCheck docs token now =
     (case getDoc docs token of
        None \<Rightarrow> (docs, Json 404 [(''error'', JStr ''Token not found'')])
      | Some doc \<Rightarrow>
          if truthy (fld doc ''expires_at'') \<and> date_lt (fld doc ''expires_at'') now
          then (updateDoc docs token [(''status'', JStr ''expired'')],
                Json 200
                  (json_stringify
                     (rest_without ''client_secret''
                        (AList.update ''status'' (JStr ''expired'') doc))))
          else (docs, Json 200 (json_stringify (rest_without ''client_secret'' doc))))"

section \<open>The worker: the Telegram webhook\<close>

text \<open>Branch A of \<^verbatim>\<open>handleTelegramWebhook\<close>: \<^verbatim>\<open>/start <token>\<close>.\<close>

definition worker_start :: "store \<Rightarrow> tg_message \<Rightarrow> store \<times> effect list" where
  "worker_start docs msg =
     (case msg_text msg of
        None \<Rightarrow> (docs, [])
      | Some text \<Rightarrow>
          if text \<noteq> [] \<and> startsWith text ''/start ''
          then (case second_arg (split_on CHR '' '' text) of
                  JStr token \<Rightarrow>
                    if token = [] then (docs, [])
                    else (case getDoc docs token of
                            None \<Rightarrow> (docs, [Reply (msg_chat msg) InvalidOrExpired])
                          | Some session \<Rightarrow>
                              if fld session ''status'' = JStr ''pending''
                              then (updateDoc docs token [(''chat_id'', JNum (msg_chat msg))],
                                    [Reply (msg_chat msg) SharePrompt])
                              else (docs, [Reply (msg_chat msg) InvalidOrExpired]))
                | _ \<Rightarrow> (docs, []))
          else (docs, []))"

text \<open>
  Branch B, a shared contact. The handler is suspended at each \<^verbatim>\<open>await\<close> of a Firestore
  call, so it runs in two parts: up to the answer of \<^verbatim>\<open>queryDocs\<close> and the checks made on
  it, and from \<^verbatim>\<open>updateDoc\<close> on. The first part ends the handler with its replies (\<open>Inl\<close>)
  or hands the token, the session read and the update to the second (\<open>Inr\<close>).
\<close>

definition worker_update :: "contact_card \<Rightarrow> jsobj" where
  "worker_update contact =
     [(''status'', JStr ''verified''),
      (''phone'', JStr (phone_number contact)),
      (''telegram_id'', user_id_val contact),
      (''first_name'', JStr (first_name contact))]"

definition worker_contact_read ::
  "store \<Rightarrow> tg_message \<Rightarrow> contact_card \<Rightarrow> effect list + (string \<times> jsobj \<times> jsobj)" where
  "worker_contact_read docs msg contact =
     (if user_id_val contact \<noteq> JNum (msg_from msg)
      then Inl [Reply (msg_chat msg) CannotForward]
      else let sessions = queryDocs docs ''chat_id'' (JNum (msg_chat msg))
           in case find (\<lambda>(ident, data). fld data ''status'' = JStr ''pending'') sessions of
                None \<Rightarrow> Inl [Reply (msg_chat msg) NoActiveVerification]
              | Some (token, data) \<Rightarrow>
                  if JStr (normalizePhone (phone_number contact)) \<noteq> fld data ''expected_phone''
                  then Inl [Reply (msg_chat msg) PhoneMismatch]
                  else Inr (token, data, worker_update contact))"

definition worker_contact_write ::
  "store \<Rightarrow> int \<Rightarrow> string \<times> jsobj \<times> jsobj \<Rightarrow> store \<times> effect list" where
  "worker_contact_write docs chat p =
     (case p of
        (token, data, updateData) \<Rightarrow>
          (updateDoc docs token updateData,
           (if truthy (fld data ''webhook_url'')
            then [WebhookPost (fld data ''webhook_url'')
                    (webhook_body token updateData (fld data ''client_secret''))]
            else [])
           @ [Reply chat VerifiedReturn]))"

definition worker_contact :: "store \<Rightarrow> tg_message \<Rightarrow> contact_card \<Rightarrow> store \<times> effect list" where
  "worker_contact docs msg contact =
     (case worker_contact_read docs msg contact of
        Inl out \<Rightarrow> (docs, out)
      | Inr p \<Rightarrow> worker_contact_write docs (msg_chat msg) p)"

text \<open>The handler of one update, run without interruption: branch A, then branch B.\<close>

definition handleTelegramWebhook :: "store \<Rightarrow> tg_message option \<Rightarrow> store \<times> effect list" where
  "handleTelegramWebhook docs message =
     (case message of
        None \<Rightarrow> (docs, [])
      | Some msg \<Rightarrow>
          (case worker_start docs msg of
             (docs1, outA) \<Rightarrow>
               (case msg_contact msg of
                  None \<Rightarrow> (docs1, outA)
                | Some contact \<Rightarrow>
                    (case worker_contact docs1 msg contact of
                       (docs2, outB) \<Rightarrow> (docs2, outA @ outB)))))"

section \<open>Two contact deliveries in flight\<close>

text \<open>
  A contact delivery being handled by the worker is in one of three states: arrived,
  suspended between the answer of the query and the update, or returned. One step runs the
  handler up to its next suspension. A schedule says which of two handlers moves next
  (\<open>True\<close> the first, \<open>False\<close> the second); the effects are collected in the order they occur.
\<close>

datatype handler_state =
    Arrived tg_message contact_card
  | Suspended int "string \<times> jsobj \<times> jsobj"
  | Returned

fun handler_step :: "store \<Rightarrow> handler_state \<Rightarrow> store \<times> handler_state \<times> effect list" where
  "handler_step docs (Arrived msg contact) =
     (case worker_contact_read docs msg contact of
        Inl out \<Rightarrow> (docs, Returned, out)
      | Inr p \<Rightarrow> (docs, Suspended (msg_chat msg) p, []))"
| "handler_step docs (Suspended chat p) =
     (case worker_contact_write docs chat p of (docs', out) \<Rightarrow> (docs', Returned, out))"
| "handler_step docs Returned = (docs, Returned, [])"

fun interleave ::
  "bool list \<Rightarrow> store \<Rightarrow> handler_state \<Rightarrow> handler_state \<Rightarrow> store \<times> effect list" where
  "interleave [] docs a b = (docs, [])"
| "interleave (w # ws) docs a b =
     (if w
      then (case handler_step docs a of
              (docs', a', out) \<Rightarrow>
                (case interleave ws docs' a' b of (docs'', outs) \<Rightarrow> (docs'', out @ outs)))
      else (case handler_step docs b of
              (docs', b', out) \<Rightarrow>
                (case interleave ws docs' a b' of (docs'', outs) \<Rightarrow> (docs'', out @ outs))))"

text \<open>The webhook calls among the effects.\<close>

fun is_webhook :: "effect \<Rightarrow> bool" where
  "is_webhook (WebhookPost url body) = True"
| "is_webhook (Reply chat r) = False"

definition webhook_calls :: "effect list \<Rightarrow> nat" where
  "webhook_calls out = length (filter is_webhook out)"

section \<open>Properties of the normaliser\<close>

lemma startsWith_09_trunk:
  "length d = 10 \<Longrightarrow> startsWith d ''09'' = (take 1 d = ''0'' \<and> take 1 (drop 1 d) = ''9'')"
proof -
  assume len: "length d = 10"
  then obtain a b r where d: "d = a # b # r"
    by (cases d; cases "tl d") auto
  show ?thesis
    by (simp add: d startsWith_def)
qed

lemma normalizePhone_eq_spec: "normalizePhone raw = normalize_spec raw"
proof (cases "raw = []")
  case True
  then show ?thesis
    by (simp add: normalizePhone_def normalize_spec_def trunk_form_def)
next
  case False
  show ?thesis
  proof (cases "length (filter is_digit raw) = 10")
    case True
    from startsWith_09_trunk [OF True] True False show ?thesis
      by (simp add: normalizePhone_def normalize_spec_def trunk_form_def
          substring_from_def drop_Suc Let_def)
  next
    case len: False
    with False show ?thesis
      by (simp add: normalizePhone_def normalize_spec_def trunk_form_def)
  qed
qed

lemma filter_digits_251: "filter is_digit ''251'' = ''251''"
  by (simp add: is_digit_def)

lemma filter_drop_filter: "filter P (drop n (filter P xs)) = drop n (filter P xs)"
  by (rule filter_True) (auto dest: in_set_dropD)

lemma normalizePhone_digits_only:
  "filter is_digit (normalizePhone raw) = normalizePhone raw"
proof -
  have "filter is_digit (''251'' @ drop 1 (filter is_digit raw))
        = ''251'' @ drop 1 (filter is_digit raw)"
    unfolding filter_append filter_digits_251 filter_drop_filter ..
  then show ?thesis
    by (simp add: normalizePhone_def Let_def substring_from_def)
qed

text \<open>
  Claim C9. For every input string, \<open>normalizePhone\<close> computes what the specification
  describes: the non-digits are stripped; a ten-digit string that starts with \<open>09\<close> has its
  leading \<open>0\<close> replaced by \<open>251\<close>, which gives twelve digits; every other digit string
  is returned unchanged. The three sample values of the specification are as stated.
\<close>

theorem normalizePhone_meets_spec:
  "normalizePhone raw = normalize_spec raw
   \<and> (trunk_form (filter is_digit raw) \<longrightarrow>
        normalizePhone raw = ''251'' @ tl (filter is_digit raw)
        \<and> length (normalizePhone raw) = 12)
   \<and> (\<not> trunk_form (filter is_digit raw) \<longrightarrow> normalizePhone raw = filter is_digit raw)
   \<and> normalizePhone ''0911234567'' = ''251911234567''
   \<and> normalizePhone ''+251911234567'' = ''251911234567''
   \<and> normalizePhone '''' = ''''"
proof -
  have spec: "normalizePhone raw = normalize_spec raw"
    by (rule normalizePhone_eq_spec)
  have yes: "trunk_form (filter is_digit raw) \<longrightarrow>
        normalizePhone raw = ''251'' @ tl (filter is_digit raw)
        \<and> length (normalizePhone raw) = 12"
    by (simp add: spec normalize_spec_def trunk_form_def)
  have no: "\<not> trunk_form (filter is_digit raw) \<longrightarrow> normalizePhone raw = filter is_digit raw"
    by (simp add: spec normalize_spec_def)
  have e1: "normalizePhone ''0911234567'' = ''251911234567''"
    by (simp add: normalizePhone_def is_digit_def startsWith_def substring_from_def)
  have e2: "normalizePhone ''+251911234567'' = ''251911234567''"
    by (simp add: normalizePhone_def is_digit_def startsWith_def substring_from_def)
  have e3: "normalizePhone '''' = ''''"
    by (simp add: normalizePhone_def)
  from spec yes no e1 e2 e3 show ?thesis by blast
qed

theorem normalizePhone_meets_spec_witness:
  "trunk_form (filter is_digit ''09 11-23 45 67'')
   \<and> normalizePhone ''09 11-23 45 67'' = ''251911234567''
   \<and> \<not> trunk_form (filter is_digit ''0811234567'')
   \<and> normalizePhone ''0811234567'' = ''0811234567''"
proof -
  have a: "trunk_form (filter is_digit ''09 11-23 45 67'')"
    by (simp add: trunk_form_def is_digit_def)
  have b: "\<not> trunk_form (filter is_digit ''0811234567'')"
    by (simp add: trunk_form_def is_digit_def)
  have c: "''251'' @ tl (filter is_digit ''09 11-23 45 67'') = ''251911234567''"
    by (simp add: is_digit_def)
  have d: "filter is_digit ''0811234567'' = ''0811234567''"
    by (simp add: is_digit_def)
  from a normalizePhone_meets_spec [of "''09 11-23 45 67''"]
  have e: "normalizePhone ''09 11-23 45 67'' = ''251'' @ tl (filter is_digit ''09 11-23 45 67'')"
    by blast
  from b normalizePhone_meets_spec [of "''0811234567''"]
  have f: "normalizePhone ''0811234567'' = filter is_digit ''0811234567''"
    by blast
  from a b e [unfolded c] f [unfolded d] show ?thesis by blast
qed

lemma normalizePhone_idem: "normalizePhone (normalizePhone s) = normalizePhone s"
proof (cases "s = []")
  case True
  then show ?thesis by (simp add: normalizePhone_def)
next
  case False
  define d where "d = filter is_digit s"
  show ?thesis
  proof (cases "startsWith d ''09'' \<and> length d = 10")
    case True
    then have r: "normalizePhone s = ''251'' @ drop 1 d"
      using False by (simp add: normalizePhone_def d_def substring_from_def)
    have len: "length (''251'' @ drop 1 d) = 12"
      using True by simp
    have dig: "filter is_digit (''251'' @ drop 1 d) = ''251'' @ drop 1 d"
      using normalizePhone_digits_only [of s] by (simp only: r)
    have "normalizePhone (''251'' @ drop 1 d) = ''251'' @ drop 1 d"
      unfolding normalizePhone_def Let_def dig using len by simp
    then show ?thesis by (simp only: r)
  next
    case no: False
    then have r: "normalizePhone s = d"
      using False by (auto simp add: normalizePhone_def d_def)
    have dig: "filter is_digit d = d"
      by (simp add: d_def)
    have "normalizePhone d = d"
      unfolding normalizePhone_def Let_def dig using no by auto
    then show ?thesis by (simp only: r)
  qed
qed

section \<open>Objects and the two stores: basic facts\<close>

lemma fld_update: "fld (AList.update k v obj) k' = (if k' = k then v else fld obj k')"
  by (simp add: fld_def update_conv')

lemma spread_single: "spread a [(k, v)] = AList.update k v a"
  by (simp add: spread_def)

lemma getDoc_stored:
  "map_of docs token = Some doc \<Longrightarrow> doc \<noteq> [] \<Longrightarrow> getDoc docs token = Some (fromFirestore doc)"
  by (simp add: getDoc_def)

lemma updateDoc_single:
  "map_of docs token = Some doc \<Longrightarrow> v \<noteq> JUndefined \<Longrightarrow>
   updateDoc docs token [(k, v)] = AList.update token (AList.update k v doc) docs"
  by (simp add: updateDoc_def)

text \<open>
  Claim C10. \<open>normalizePhone\<close> is idempotent. The \<open>expected_phone\<close> that either variant
  stores when it creates a session is therefore a fixed point of the normaliser, and the
  handlers' comparison of a contact's normalised phone with it agrees with the comparison
  of both sides normalised once more.
\<close>

theorem normalizePhone_idempotent:
  "normalizePhone (normalizePhone s) = normalizePhone s
   \<and> fld (sessionData_of now phone webhook_url client_secret) ''expected_phone''
       = JStr (normalizePhone phone)
   \<and> fld (docData_of now max_age phone body) ''expected_phone'' = JStr (normalizePhone phone)
   \<and> normalizePhone (normalizePhone phone) = normalizePhone phone
   \<and> ((JStr (normalizePhone contact_phone) \<noteq> JStr (normalizePhone phone))
        = (normalizePhone (normalizePhone contact_phone)
             \<noteq> normalizePhone (normalizePhone phone)))"
  by (simp add: normalizePhone_idem sessionData_of_def docData_of_def fld_def)

section \<open>Lazy expiry on read\<close>

lemma getSession_stored:
  assumes "get storage token = Some session" and "fld session ''expires_at'' = JNum e"
  shows "getSession storage token now =
     (if e \<noteq> 0 \<and> e < now
      then (AList.update token (AList.update ''status'' (JStr ''expired'') session) storage,
            Some (AList.update ''status'' (JStr ''expired'') session))
      else (storage, Some session))"
  using assms by (auto simp add: getSession_def update_def get_def js_gt_def spread_single)

lemma handleCheck_stored:
  assumes "map_of docs token = Some doc" and "doc \<noteq> []"
    and "fld (fromFirestore doc) ''expires_at'' = JTime e"
  shows "handleCheck docs token now =
     (if e < now
      then (AList.update token (AList.update ''status'' (JStr ''expired'') doc) docs,
            Json 200 (json_stringify (rest_without ''client_secret''
               (AList.update ''status'' (JStr ''expired'') (fromFirestore doc)))))
      else (docs, Json 200 (json_stringify (rest_without ''client_secret'' (fromFirestore doc)))))"
  using assms by (simp add: handleCheck_def getDoc_stored updateDoc_single date_lt_def)

text \<open>
  The timer that the server's \<open>create\<close> sets removes the session only if it is still
  pending when the timer fires; a session of any other status stays.
\<close>

lemma create_timeout_pending_only:
  "create_timeout storage token =
     (if map_option (\<lambda>s. fld s ''status'') (get storage token) = Some (JStr ''pending'')
      then AList.delete token storage else storage)"
  by (simp add: create_timeout_def get_def split: option.splits)

text \<open>
  What the two read paths compute for a stored session whose \<open>expires_at\<close> is the number
  (server) or the timestamp (worker) written at creation: the status \<open>expired\<close> is written
  to the store and returned when \<open>expires_at\<close> lies before \<open>now\<close>, and otherwise the session
  is returned as stored and the store is left as it was. The stored status plays no part.
\<close>

lemma lazy_expiry_on_read:
  "(get storage token = Some session \<and> fld session ''expires_at'' = JNum e \<longrightarrow>
      getSession storage token now =
        (if e \<noteq> 0 \<and> e < now
         then (AList.update token (AList.update ''status'' (JStr ''expired'') session) storage,
               Some (AList.update ''status'' (JStr ''expired'') session))
         else (storage, Some session))
      \<and> get (fst (getSession storage token now)) token = snd (getSession storage token now))
   \<and> (map_of docs ident = Some doc \<and> doc \<noteq> []
        \<and> fld (fromFirestore doc) ''expires_at'' = JTime e' \<longrightarrow>
      handleCheck docs ident now =
        (if e' < now
         then (AList.update ident (AList.update ''status'' (JStr ''expired'') doc) docs,
               Json 200 (json_stringify (rest_without ''client_secret''
                  (AList.update ''status'' (JStr ''expired'') (fromFirestore doc)))))
         else (docs,
               Json 200 (json_stringify (rest_without ''client_secret'' (fromFirestore doc))))))"
proof (intro conjI impI)
  assume a: "get storage token = Some session \<and> fld session ''expires_at'' = JNum e"
  then show "getSession storage token now =
        (if e \<noteq> 0 \<and> e < now
         then (AList.update token (AList.update ''status'' (JStr ''expired'') session) storage,
               Some (AList.update ''status'' (JStr ''expired'') session))
         else (storage, Some session))"
    by (simp add: getSession_stored)
  from a show "get (fst (getSession storage token now)) token
      = snd (getSession storage token now)"
    by (simp add: getSession_stored [of storage token session e] get_def update_conv')
next
  assume "map_of docs ident = Some doc \<and> doc \<noteq> []
        \<and> fld (fromFirestore doc) ''expires_at'' = JTime e'"
  then show "handleCheck docs ident now =
        (if e' < now
         then (AList.update ident (AList.update ''status'' (JStr ''expired'') doc) docs,
               Json 200 (json_stringify (rest_without ''client_secret''
                  (AList.update ''status'' (JStr ''expired'') (fromFirestore doc)))))
         else (docs,
               Json 200 (json_stringify (rest_without ''client_secret'' (fromFirestore doc)))))"
    by (simp add: handleCheck_stored)
qed

lemma lazy_expiry_on_read_sample:
  "getSession
     [(''T'', [(''status'', JStr ''pending''), (''expected_phone'', JStr ''251911234567''),
               (''client_secret'', JStr ''s3cret''), (''expires_at'', JNum 601000)])]
     ''T'' 601000
   = ([(''T'', [(''status'', JStr ''pending''), (''expected_phone'', JStr ''251911234567''),
                (''client_secret'', JStr ''s3cret''), (''expires_at'', JNum 601000)])],
      Some [(''status'', JStr ''pending''), (''expected_phone'', JStr ''251911234567''),
            (''client_secret'', JStr ''s3cret''), (''expires_at'', JNum 601000)])
   \<and> getSession
     [(''T'', [(''status'', JStr ''pending''), (''expected_phone'', JStr ''251911234567''),
               (''client_secret'', JStr ''s3cret''), (''expires_at'', JNum 601000)])]
     ''T'' 601001
   = ([(''T'', [(''status'', JStr ''expired''), (''expected_phone'', JStr ''251911234567''),
                (''client_secret'', JStr ''s3cret''), (''expires_at'', JNum 601000)])],
      Some [(''status'', JStr ''expired''), (''expected_phone'', JStr ''251911234567''),
            (''client_secret'', JStr ''s3cret''), (''expires_at'', JNum 601000)])
   \<and> handleCheck
     [(''T'', [(''status'', JStr ''pending''), (''expected_phone'', JStr ''251911234567''),
               (''client_secret'', JStr ''s3cret''), (''expires_at'', JTime 3601000)])]
     ''T'' 3601001
   = ([(''T'', [(''status'', JStr ''expired''), (''expected_phone'', JStr ''251911234567''),
                (''client_secret'', JStr ''s3cret''), (''expires_at'', JTime 3601000)])],
      Json 200 [(''status'', JStr ''expired''), (''expected_phone'', JStr ''251911234567''),
                (''expires_at'', JTime 3601000)])"
proof -
  let ?s = "[(''status'', JStr ''pending''), (''expected_phone'', JStr ''251911234567''),
             (''client_secret'', JStr ''s3cret''), (''expires_at'', JNum 601000)]"
  let ?d = "[(''status'', JStr ''pending''), (''expected_phone'', JStr ''251911234567''),
             (''client_secret'', JStr ''s3cret''), (''expires_at'', JTime 3601000)]"
  have h1: "get [(''T'', ?s)] ''T'' = Some ?s \<and> fld ?s ''expires_at'' = JNum 601000"
    by (simp add: get_def fld_def)
  have h2: "map_of [(''T'', ?d)] ''T'' = Some ?d \<and> ?d \<noteq> []
            \<and> fld (fromFirestore ?d) ''expires_at'' = JTime 3601000"
    by (simp add: fld_def fromFirestore_def)
  have v: "json_stringify (rest_without ''client_secret''
             (AList.update ''status'' (JStr ''expired'') (fromFirestore ?d)))
           = [(''status'', JStr ''expired''), (''expected_phone'', JStr ''251911234567''),
              (''expires_at'', JTime 3601000)]"
    by code_simp
  from h1 h2 v
    lazy_expiry_on_read [of "[(''T'', ?s)]" "''T''" ?s 601000 601000 "[(''T'', ?d)]" "''T''" ?d 3601000]
    lazy_expiry_on_read [of "[(''T'', ?s)]" "''T''" ?s 601000 601001 "[(''T'', ?d)]" "''T''" ?d 3601000]
    lazy_expiry_on_read [of "[(''T'', ?s)]" "''T''" ?s 601000 3601001 "[(''T'', ?d)]" "''T''" ?d 3601000]
  show ?thesis by simp
qed

text \<open>A session with no \<open>expires_at\<close> is returned as stored at every time.\<close>

lemma read_without_expiry:
  "get storage token = Some session \<Longrightarrow> \<not> truthy (fld session ''expires_at'') \<Longrightarrow>
   getSession storage token now = (storage, Some session)"
  "map_of docs ident = Some doc \<Longrightarrow> doc \<noteq> [] \<Longrightarrow>
   \<not> truthy (fld (fromFirestore doc) ''expires_at'') \<Longrightarrow>
   handleCheck docs ident now
     = (docs, Json 200 (json_stringify (rest_without ''client_secret'' (fromFirestore doc))))"
  by (simp_all add: getSession_def handleCheck_def getDoc_stored)

text \<open>
  Claim C1 is not met by the code. The check paths \<open>getSession\<close> and \<open>handleCheck\<close> coerce
  on the clock alone, without the test for a pending status: a session verified in time
  (first conjunct, built by the server's own operations) and read after \<open>expires_at\<close> comes
  back as \<open>expired\<close>, and \<open>expired\<close> is written over \<open>verified\<close> in the store (second
  conjunct; third, the worker). The timer set by \<open>create\<close>, the server's other expiry path,
  has that test and keeps the same session (fourth). The store's own read, through which
  the bot handlers go, never coerces: a pending session past its \<open>expires_at\<close> is read as
  pending, bound by \<^verbatim>\<open>/start\<close> (fifth; seventh, the worker) and verified by a contact that
  arrives after expiry (sixth).
\<close>

theorem read_after_expiry_overwrites_verified:
  "fst (bot_on_contact
          (fst (bot_start
                  (fst (createSession [] ''T'' 1000 ''0911234567'' JUndefined JUndefined))
                  555 ''/start T''))
          2000 555 42
          \<lparr>phone_number = ''0911234567'', first_name = ''Abebe'', user_id = Some 42\<rparr>)
     = [(''T'',
         [(''status'', JStr ''verified''), (''expected_phone'', JStr ''251911234567''),
          (''webhook_url'', JNull), (''client_secret'', JNull),
          (''created_at'', JNum 1000), (''expires_at'', JNum 601000),
          (''chat_id'', JNum 555), (''phone'', JStr ''0911234567''),
          (''telegram_id'', JNum 42), (''first_name'', JStr ''Abebe''),
          (''verified_at'', JNum 2000)])]
   \<and> getSession
         [(''T'',
           [(''status'', JStr ''verified''), (''expected_phone'', JStr ''251911234567''),
            (''webhook_url'', JNull), (''client_secret'', JNull),
            (''created_at'', JNum 1000), (''expires_at'', JNum 601000),
            (''chat_id'', JNum 555), (''phone'', JStr ''0911234567''),
            (''telegram_id'', JNum 42), (''first_name'', JStr ''Abebe''),
            (''verified_at'', JNum 2000)])]
         ''T'' 601001
     = ([(''T'',
          [(''status'', JStr ''expired''), (''expected_phone'', JStr ''251911234567''),
           (''webhook_url'', JNull), (''client_secret'', JNull),
           (''created_at'', JNum 1000), (''expires_at'', JNum 601000),
           (''chat_id'', JNum 555), (''phone'', JStr ''0911234567''),
           (''telegram_id'', JNum 42), (''first_name'', JStr ''Abebe''),
           (''verified_at'', JNum 2000)])],
        Some [(''status'', JStr ''expired''), (''expected_phone'', JStr ''251911234567''),
           (''webhook_url'', JNull), (''client_secret'', JNull),
           (''created_at'', JNum 1000), (''expires_at'', JNum 601000),
           (''chat_id'', JNum 555), (''phone'', JStr ''0911234567''),
           (''telegram_id'', JNum 42), (''first_name'', JStr ''Abebe''),
           (''verified_at'', JNum 2000)])
   \<and> handleCheck
         [(''T'',
           [(''status'', JStr ''verified''), (''expected_phone'', JStr ''251911234567''),
            (''expires_at'', JTime 3601000), (''chat_id'', JNum 555)])]
         ''T'' 3601001
     = ([(''T'',
          [(''status'', JStr ''expired''), (''expected_phone'', JStr ''251911234567''),
           (''expires_at'', JTime 3601000), (''chat_id'', JNum 555)])],
        Json 200
          [(''status'', JStr ''expired''), (''expected_phone'', JStr ''251911234567''),
           (''expires_at'', JTime 3601000), (''chat_id'', JNum 555)])
   \<and> create_timeout
         [(''T'',
           [(''status'', JStr ''verified''), (''expected_phone'', JStr ''251911234567''),
            (''expires_at'', JNum 601000), (''chat_id'', JNum 555)])]
         ''T''
     = [(''T'',
         [(''status'', JStr ''verified''), (''expected_phone'', JStr ''251911234567''),
          (''expires_at'', JNum 601000), (''chat_id'', JNum 555)])]
   \<and> bot_start
         [(''T'',
           [(''status'', JStr ''pending''), (''expected_phone'', JStr ''251911234567''),
            (''expires_at'', JNum 601000)])]
         555 ''/start T''
     = ([(''T'',
          [(''status'', JStr ''pending''), (''expected_phone'', JStr ''251911234567''),
           (''expires_at'', JNum 601000), (''chat_id'', JNum 555)])],
        [Reply 555 SecurityCheckRequired])
   \<and> bot_on_contact
         [(''T'',
           [(''status'', JStr ''pending''), (''expected_phone'', JStr ''251911234567''),
            (''expires_at'', JNum 601000), (''chat_id'', JNum 555)])]
         601001 555 42
         \<lparr>phone_number = ''0911234567'', first_name = ''Abebe'', user_id = Some 42\<rparr>
     = ([(''T'',
          [(''status'', JStr ''verified''), (''expected_phone'', JStr ''251911234567''),
           (''expires_at'', JNum 601000), (''chat_id'', JNum 555),
           (''phone'', JStr ''0911234567''), (''telegram_id'', JNum 42),
           (''first_name'', JStr ''Abebe''), (''verified_at'', JNum 601001)])],
        [Reply 555 (VerificationComplete ''Abebe'')])
   \<and> handleTelegramWebhook
         [(''T'',
           [(''status'', JStr ''pending''), (''expected_phone'', JStr ''251911234567''),
            (''expires_at'', JTime 3601000)])]
         (Some \<lparr>msg_chat = 555, msg_from = 42, msg_text = Some ''/start T'',
                msg_contact = None\<rparr>)
     = ([(''T'',
          [(''status'', JStr ''pending''), (''expected_phone'', JStr ''251911234567''),
           (''expires_at'', JTime 3601000), (''chat_id'', JNum 555)])],
        [Reply 555 SharePrompt])"
  by code_simp

section \<open>Chat binding by \<^verbatim>\<open>/start\<close>\<close>

lemma update_store_single:
  "get storage t = Some session \<Longrightarrow>
   update storage t [(k, v)] = (AList.update t (AList.update k v session) storage, True)"
  by (simp add: update_def get_def spread_single)

lemma bot_start_token:
  assumes "second_arg (split_on CHR '' '' text) = JStr t" and "t \<noteq> []"
    and "get storage t = Some session"
  shows "bot_start storage chat text =
     (if fld session ''status'' = JStr ''verified''
      then (storage, [Reply chat AlreadyVerified])
      else (AList.update t (AList.update ''chat_id'' (JNum chat) session) storage,
            [Reply chat SecurityCheckRequired]))"
  using assms by (simp add: bot_start_def update_store_single)

lemma worker_start_token:
  assumes "msg_text msg = Some text" and "startsWith text ''/start ''"
    and "second_arg (split_on CHR '' '' text) = JStr t" and "t \<noteq> []"
    and "map_of docs t = Some doc" and "doc \<noteq> []"
  shows "worker_start docs msg =
     (if fld (fromFirestore doc) ''status'' = JStr ''pending''
      then (AList.update t (AList.update ''chat_id'' (JNum (msg_chat msg)) doc) docs,
            [Reply (msg_chat msg) SharePrompt])
      else (docs, [Reply (msg_chat msg) InvalidOrExpired]))"
proof -
  from assms(2) have "text \<noteq> []"
    by (auto simp add: startsWith_def)
  with assms show ?thesis
    by (simp add: worker_start_def getDoc_stored updateDoc_single)
qed

lemma rebind_same:
  "map_of storage t = Some session \<Longrightarrow> map_of session k = Some v \<Longrightarrow>
   AList.update t (AList.update k v session) storage = storage"
  by (simp add: update_triv)

text \<open>
  Claim C3, amended. A \<^verbatim>\<open>/start <token>\<close> for a stored session whose status is pending
  sets \<open>chat_id\<close> to the chat it comes from, whatever \<open>chat_id\<close> held before: a later
  \<^verbatim>\<open>/start\<close> from another chat rebinds the session, and a repeated one from the bound chat
  leaves the store as it was. A \<^verbatim>\<open>/start\<close> for a verified session changes no state; in the
  worker, neither does one for any session whose status is not pending.
\<close>

theorem start_binds_chat:
  "(second_arg (split_on CHR '' '' text) = JStr t \<and> t \<noteq> [] \<and> get storage t = Some session \<longrightarrow>
      (fld session ''status'' = JStr ''pending'' \<longrightarrow>
         bot_start storage chat text =
           (AList.update t (AList.update ''chat_id'' (JNum chat) session) storage,
            [Reply chat SecurityCheckRequired])
         \<and> map_option (\<lambda>s. fld s ''chat_id'') (get (fst (bot_start storage chat text)) t)
             = Some (JNum chat))
      \<and> (fld session ''status'' = JStr ''pending'' \<and> map_of session ''chat_id'' = Some (JNum chat)
           \<longrightarrow> fst (bot_start storage chat text) = storage)
      \<and> (fld session ''status'' = JStr ''verified'' \<longrightarrow>
           bot_start storage chat text = (storage, [Reply chat AlreadyVerified])))
   \<and> (msg_text msg = Some text' \<and> startsWith text' ''/start ''
        \<and> second_arg (split_on CHR '' '' text') = JStr t' \<and> t' \<noteq> []
        \<and> map_of docs t' = Some doc \<and> doc \<noteq> [] \<longrightarrow>
      (fld (fromFirestore doc) ''status'' = JStr ''pending'' \<longrightarrow>
         worker_start docs msg =
           (AList.update t' (AList.update ''chat_id'' (JNum (msg_chat msg)) doc) docs,
            [Reply (msg_chat msg) SharePrompt])
         \<and> map_option (\<lambda>s. fld s ''chat_id'') (map_of (fst (worker_start docs msg)) t')
             = Some (JNum (msg_chat msg)))
      \<and> (fld (fromFirestore doc) ''status'' = JStr ''pending''
           \<and> map_of doc ''chat_id'' = Some (JNum (msg_chat msg))
           \<longrightarrow> fst (worker_start docs msg) = docs)
      \<and> (fld (fromFirestore doc) ''status'' \<noteq> JStr ''pending'' \<longrightarrow>
           worker_start docs msg = (docs, [Reply (msg_chat msg) InvalidOrExpired])))"
proof (intro conjI impI)
  assume a: "second_arg (split_on CHR '' '' text) = JStr t \<and> t \<noteq> [] \<and> get storage t = Some session"
  then have eq: "bot_start storage chat text =
     (if fld session ''status'' = JStr ''verified''
      then (storage, [Reply chat AlreadyVerified])
      else (AList.update t (AList.update ''chat_id'' (JNum chat) session) storage,
            [Reply chat SecurityCheckRequired]))"
    by (simp add: bot_start_token)
  {
    assume p: "fld session ''status'' = JStr ''pending''"
    with eq show "bot_start storage chat text =
           (AList.update t (AList.update ''chat_id'' (JNum chat) session) storage,
            [Reply chat SecurityCheckRequired])"
      by simp
    from p eq show "map_option (\<lambda>s. fld s ''chat_id'') (get (fst (bot_start storage chat text)) t)
             = Some (JNum chat)"
      by (simp add: get_def update_conv' fld_update)
  }
  {
    assume "fld session ''status'' = JStr ''pending'' \<and> map_of session ''chat_id'' = Some (JNum chat)"
    with eq a show "fst (bot_start storage chat text) = storage"
      by (simp add: get_def rebind_same)
  }
  {
    assume "fld session ''status'' = JStr ''verified''"
    with eq show "bot_start storage chat text = (storage, [Reply chat AlreadyVerified])"
      by simp
  }
next
  assume b: "msg_text msg = Some text' \<and> startsWith text' ''/start ''
        \<and> second_arg (split_on CHR '' '' text') = JStr t' \<and> t' \<noteq> []
        \<and> map_of docs t' = Some doc \<and> doc \<noteq> []"
  then have eq: "worker_start docs msg =
     (if fld (fromFirestore doc) ''status'' = JStr ''pending''
      then (AList.update t' (AList.update ''chat_id'' (JNum (msg_chat msg)) doc) docs,
            [Reply (msg_chat msg) SharePrompt])
      else (docs, [Reply (msg_chat msg) InvalidOrExpired]))"
    by (simp add: worker_start_token)
  {
    assume p: "fld (fromFirestore doc) ''status'' = JStr ''pending''"
    with eq show "worker_start docs msg =
           (AList.update t' (AList.update ''chat_id'' (JNum (msg_chat msg)) doc) docs,
            [Reply (msg_chat msg) SharePrompt])"
      by simp
    from p eq show "map_option (\<lambda>s. fld s ''chat_id'') (map_of (fst (worker_start docs msg)) t')
             = Some (JNum (msg_chat msg))"
      by (simp add: update_conv' fld_update)
  }
  {
    assume "fld (fromFirestore doc) ''status'' = JStr ''pending''
           \<and> map_of doc ''chat_id'' = Some (JNum (msg_chat msg))"
    with eq b show "fst (worker_start docs msg) = docs"
      by (simp add: rebind_same)
  }
  {
    assume "fld (fromFirestore doc) ''status'' \<noteq> JStr ''pending''"
    with eq show "worker_start docs msg = (docs, [Reply (msg_chat msg) InvalidOrExpired])"
      by simp
  }
qed

text \<open>
  Claim C3, as stated, fails: no handler looks at \<open>chat_id\<close> before writing it. A session
  bound to chat 555 and still pending is rebound to chat 777 by a second \<^verbatim>\<open>/start\<close>, in the
  server (first conjunct) and in the worker (second). The third conjunct records that the
  server's handler, which only tests for \<open>verified\<close>, also binds a session whose stored
  status is \<open>expired\<close>.
\<close>

theorem start_rebinds_counterexample:
  "bot_start
     [(''T'', [(''status'', JStr ''pending''), (''expected_phone'', JStr ''251911234567''),
               (''expires_at'', JNum 601000), (''chat_id'', JNum 555)])]
     777 ''/start T''
   = ([(''T'', [(''status'', JStr ''pending''), (''expected_phone'', JStr ''251911234567''),
                (''expires_at'', JNum 601000), (''chat_id'', JNum 777)])],
      [Reply 777 SecurityCheckRequired])
   \<and> handleTelegramWebhook
       [(''T'', [(''status'', JStr ''pending''), (''expected_phone'', JStr ''251911234567''),
                 (''expires_at'', JTime 3601000), (''chat_id'', JNum 555)])]
       (Some \<lparr>msg_chat = 777, msg_from = 43, msg_text = Some ''/start T'', msg_contact = None\<rparr>)
   = ([(''T'', [(''status'', JStr ''pending''), (''expected_phone'', JStr ''251911234567''),
                (''expires_at'', JTime 3601000), (''chat_id'', JNum 777)])],
      [Reply 777 SharePrompt])
   \<and> bot_start
     [(''T'', [(''status'', JStr ''expired''), (''expected_phone'', JStr ''251911234567''),
               (''expires_at'', JNum 601000)])]
     777 ''/start T''
   = ([(''T'', [(''status'', JStr ''expired''), (''expected_phone'', JStr ''251911234567''),
                (''expires_at'', JNum 601000), (''chat_id'', JNum 777)])],
      [Reply 777 SecurityCheckRequired])"
  by code_simp

theorem start_binds_chat_witness:
  "bot_start
     [(''T'', [(''status'', JStr ''pending''), (''expected_phone'', JStr ''251911234567''),
               (''expires_at'', JNum 601000), (''chat_id'', JNum 555)])]
     555 ''/start T''
   = ([(''T'', [(''status'', JStr ''pending''), (''expected_phone'', JStr ''251911234567''),
                (''expires_at'', JNum 601000), (''chat_id'', JNum 555)])],
      [Reply 555 SecurityCheckRequired])
   \<and> bot_start
     [(''V'', [(''status'', JStr ''verified''), (''expected_phone'', JStr ''251911234567''),
               (''expires_at'', JNum 601000), (''chat_id'', JNum 555)])]
     777 ''/start V''
   = ([(''V'', [(''status'', JStr ''verified''), (''expected_phone'', JStr ''251911234567''),
                (''expires_at'', JNum 601000), (''chat_id'', JNum 555)])],
      [Reply 777 AlreadyVerified])
   \<and> worker_start
     [(''T'', [(''status'', JStr ''pending''), (''expected_phone'', JStr ''251911234567''),
               (''expires_at'', JTime 3601000)])]
     \<lparr>msg_chat = 555, msg_from = 42, msg_text = Some ''/start T'', msg_contact = None\<rparr>
   = ([(''T'', [(''status'', JStr ''pending''), (''expected_phone'', JStr ''251911234567''),
                (''expires_at'', JTime 3601000), (''chat_id'', JNum 555)])],
      [Reply 555 SharePrompt])
   \<and> worker_start
     [(''E'', [(''status'', JStr ''expired''), (''expected_phone'', JStr ''251911234567''),
               (''expires_at'', JTime 3601000)])]
     \<lparr>msg_chat = 555, msg_from = 42, msg_text = Some ''/start E'', msg_contact = None\<rparr>
   = ([(''E'', [(''status'', JStr ''expired''), (''expected_phone'', JStr ''251911234567''),
                (''expires_at'', JTime 3601000)])],
      [Reply 555 InvalidOrExpired])
   \<and> fst (worker_start
     [(''T'', [(''status'', JStr ''pending''), (''expected_phone'', JStr ''251911234567''),
               (''expires_at'', JTime 3601000), (''chat_id'', JNum 555)])]
     \<lparr>msg_chat = 555, msg_from = 42, msg_text = Some ''/start T'', msg_contact = None\<rparr>)
   = [(''T'', [(''status'', JStr ''pending''), (''expected_phone'', JStr ''251911234567''),
               (''expires_at'', JTime 3601000), (''chat_id'', JNum 555)])]"
proof -
  let ?b = "[(''status'', JStr ''pending''), (''expected_phone'', JStr ''251911234567''),
             (''expires_at'', JTime 3601000), (''chat_id'', JNum 555)]"
  let ?p = "[(''status'', JStr ''pending''), (''expected_phone'', JStr ''251911234567''),
             (''expires_at'', JNum 601000), (''chat_id'', JNum 555)]"
  let ?v = "[(''status'', JStr ''verified''), (''expected_phone'', JStr ''251911234567''),
             (''expires_at'', JNum 601000), (''chat_id'', JNum 555)]"
  let ?d = "[(''status'', JStr ''pending''), (''expected_phone'', JStr ''251911234567''),
             (''expires_at'', JTime 3601000)]"
  let ?e = "[(''status'', JStr ''expired''), (''expected_phone'', JStr ''251911234567''),
             (''expires_at'', JTime 3601000)]"
  let ?mT = "\<lparr>msg_chat = 555, msg_from = 42, msg_text = Some ''/start T'', msg_contact = None\<rparr>"
  let ?mE = "\<lparr>msg_chat = 555, msg_from = 42, msg_text = Some ''/start E'', msg_contact = None\<rparr>"
  have sT: "second_arg (split_on CHR '' '' ''/start T'') = JStr ''T'' \<and> ''T'' \<noteq> []"
    by code_simp
  have sV: "second_arg (split_on CHR '' '' ''/start V'') = JStr ''V'' \<and> ''V'' \<noteq> []"
    by code_simp
  have sE: "second_arg (split_on CHR '' '' ''/start E'') = JStr ''E'' \<and> ''E'' \<noteq> []"
    by code_simp
  have gp: "get [(''T'', ?p)] ''T'' = Some ?p" by (simp add: get_def)
  have gv: "get [(''V'', ?v)] ''V'' = Some ?v" by (simp add: get_def)
  have fp: "fld ?p ''status'' = JStr ''pending'' \<and> map_of ?p ''chat_id'' = Some (JNum 555)"
    by (simp add: fld_def)
  have fv: "fld ?v ''status'' = JStr ''verified''" by (simp add: fld_def)
  have wT: "msg_text ?mT = Some ''/start T'' \<and> startsWith ''/start T'' ''/start ''
            \<and> map_of [(''T'', ?d)] ''T'' = Some ?d \<and> ?d \<noteq> []"
    by (simp add: startsWith_def)
  have wE: "msg_text ?mE = Some ''/start E'' \<and> startsWith ''/start E'' ''/start ''
            \<and> map_of [(''E'', ?e)] ''E'' = Some ?e \<and> ?e \<noteq> []"
    by (simp add: startsWith_def)
  have fd: "fld (fromFirestore ?d) ''status'' = JStr ''pending''"
    by (simp add: fld_def fromFirestore_def)
  have fe: "fld (fromFirestore ?e) ''status'' \<noteq> JStr ''pending''"
    by (simp add: fld_def fromFirestore_def)
  from sT gp fp wT fd
    start_binds_chat [of "''/start T''" "''T''" "[(''T'', ?p)]" ?p 555 ?mT "''/start T''" "''T''"
      "[(''T'', ?d)]" ?d]
  have one: "bot_start [(''T'', ?p)] 555 ''/start T'' = ([(''T'', ?p)], [Reply 555 SecurityCheckRequired])
     \<and> worker_start [(''T'', ?d)] ?mT
        = ([(''T'', ?d @ [(''chat_id'', JNum 555)])], [Reply 555 SharePrompt])"
    by simp
  from sV gv fv sE wE fe
    start_binds_chat [of "''/start V''" "''V''" "[(''V'', ?v)]" ?v 777 ?mE "''/start E''" "''E''"
      "[(''E'', ?e)]" ?e]
  have two: "bot_start [(''V'', ?v)] 777 ''/start V'' = ([(''V'', ?v)], [Reply 777 AlreadyVerified])
     \<and> worker_start [(''E'', ?e)] ?mE = ([(''E'', ?e)], [Reply 555 InvalidOrExpired])"
    by simp
  have wB: "msg_text ?mT = Some ''/start T'' \<and> startsWith ''/start T'' ''/start ''
            \<and> map_of [(''T'', ?b)] ''T'' = Some ?b \<and> ?b \<noteq> []"
    by (simp add: startsWith_def)
  have fb: "fld (fromFirestore ?b) ''status'' = JStr ''pending''
            \<and> map_of ?b ''chat_id'' = Some (JNum (msg_chat ?mT))"
    by (simp add: fld_def fromFirestore_def)
  from sT gp fp wB fb
    start_binds_chat [of "''/start T''" "''T''" "[(''T'', ?p)]" ?p 555 ?mT "''/start T''" "''T''"
      "[(''T'', ?b)]" ?b]
  have three: "fst (worker_start [(''T'', ?b)] ?mT) = [(''T'', ?b)]"
    by blast
  from one two three show ?thesis by simp
qed

section \<open>The ownership check\<close>

text \<open>
  Claim C4. A contact whose \<open>user_id\<close> is not the sender's id (or is missing) is rejected
  with the security reply and the store is left exactly as it was: by the server's contact
  handler, and by the contact branch of the worker. For the worker's whole webhook handler
  the store after the update is the store that the \<^verbatim>\<open>/start\<close> branch leaves, which is the
  store before for a message that carries a contact and no text.
\<close>

theorem forwarded_contact_rejected:
  "(user_id contact \<noteq> Some sender \<longrightarrow>
      bot_on_contact storage now chat sender contact = (storage, [Reply chat SecurityError]))
   \<and> (user_id contact \<noteq> Some (msg_from msg) \<longrightarrow>
      worker_contact docs msg contact = (docs, [Reply (msg_chat msg) CannotForward]))
   \<and> (user_id contact \<noteq> Some (msg_from msg) \<and> msg_contact msg = Some contact \<longrightarrow>
      handleTelegramWebhook docs (Some msg)
        = (fst (worker_start docs msg),
           snd (worker_start docs msg) @ [Reply (msg_chat msg) CannotForward]))
   \<and> (user_id contact \<noteq> Some (msg_from msg) \<and> msg_contact msg = Some contact
        \<and> msg_text msg = None \<longrightarrow>
      handleTelegramWebhook docs (Some msg) = (docs, [Reply (msg_chat msg) CannotForward]))"
proof -
  have val: "\<And>s. user_id contact \<noteq> Some s \<Longrightarrow> user_id_val contact \<noteq> JNum s"
    by (auto simp add: user_id_val_def split: option.splits)
  have branch: "user_id contact \<noteq> Some (msg_from msg) \<Longrightarrow>
      worker_contact docs' msg contact = (docs', [Reply (msg_chat msg) CannotForward])" for docs'
    by (simp add: worker_contact_def worker_contact_read_def val)
  show ?thesis
    by (auto simp add: bot_on_contact_def val branch handleTelegramWebhook_def worker_start_def
        split: prod.splits)
qed

theorem forwarded_contact_rejected_witness:
  "bot_on_contact
     [(''T'', [(''status'', JStr ''pending''), (''expected_phone'', JStr ''251911234567''),
               (''expires_at'', JNum 601000), (''chat_id'', JNum 555)])]
     2000 555 42 \<lparr>phone_number = ''0911234567'', first_name = ''Abebe'', user_id = Some 41\<rparr>
   = ([(''T'', [(''status'', JStr ''pending''), (''expected_phone'', JStr ''251911234567''),
                (''expires_at'', JNum 601000), (''chat_id'', JNum 555)])],
      [Reply 555 SecurityError])
   \<and> handleTelegramWebhook
     [(''T'', [(''status'', JStr ''pending''), (''expected_phone'', JStr ''251911234567''),
               (''expires_at'', JTime 3601000), (''chat_id'', JNum 555)])]
     (Some \<lparr>msg_chat = 555, msg_from = 42, msg_text = None,
            msg_contact = Some \<lparr>phone_number = ''0911234567'', first_name = ''Abebe'',
                                  user_id = None\<rparr>\<rparr>)
   = ([(''T'', [(''status'', JStr ''pending''), (''expected_phone'', JStr ''251911234567''),
                (''expires_at'', JTime 3601000), (''chat_id'', JNum 555)])],
      [Reply 555 CannotForward])"
proof -
  let ?c = "\<lparr>phone_number = ''0911234567'', first_name = ''Abebe'', user_id = Some 41\<rparr>"
  let ?n = "\<lparr>phone_number = ''0911234567'', first_name = ''Abebe'', user_id = None\<rparr>"
  let ?m = "\<lparr>msg_chat = 555, msg_from = 42, msg_text = None, msg_contact = Some ?n\<rparr>"
  have h1: "user_id ?c \<noteq> Some 42" by simp
  have h2: "user_id ?n \<noteq> Some (msg_from ?m) \<and> msg_contact ?m = Some ?n \<and> msg_text ?m = None"
    by simp
  from h1 forwarded_contact_rejected [of ?c 42 _ 2000 555]
  have a: "bot_on_contact
     [(''T'', [(''status'', JStr ''pending''), (''expected_phone'', JStr ''251911234567''),
               (''expires_at'', JNum 601000), (''chat_id'', JNum 555)])]
     2000 555 42 ?c
   = ([(''T'', [(''status'', JStr ''pending''), (''expected_phone'', JStr ''251911234567''),
                (''expires_at'', JNum 601000), (''chat_id'', JNum 555)])],
      [Reply 555 SecurityError])"
    by blast
  from h2 forwarded_contact_rejected [of ?n 42 _ _ _ ?m]
  have b: "handleTelegramWebhook
     [(''T'', [(''status'', JStr ''pending''), (''expected_phone'', JStr ''251911234567''),
               (''expires_at'', JTime 3601000), (''chat_id'', JNum 555)])]
     (Some ?m)
   = ([(''T'', [(''status'', JStr ''pending''), (''expected_phone'', JStr ''251911234567''),
                (''expires_at'', JTime 3601000), (''chat_id'', JNum 555)])],
      [Reply (msg_chat ?m) CannotForward])"
    by blast
  from a b show ?thesis by simp
qed

section \<open>The commit and the webhook\<close>

lemma find_Some_member: "find P xs = Some x \<Longrightarrow> x \<in> set xs \<and> P x"
  by (induction xs) (auto split: if_splits)

lemma findByChatId_Some:
  assumes "findByChatId storage chatId = Some (tok, session)"
  shows "(tok, session) \<in> set storage \<and> fld session ''chat_id'' = chatId
         \<and> fld session ''status'' = JStr ''pending''"
  using find_Some_member [OF assms [unfolded findByChatId_def]] by simp

lemma user_id_val_Some: "user_id contact = Some u \<Longrightarrow> user_id_val contact = JNum u"
  by (simp add: user_id_val_def)

lemma spread_verified_update:
  "spread session (verified_update now contact) =
     AList.update ''verified_at'' (JNum now)
       (AList.update ''first_name'' (JStr (first_name contact))
          (AList.update ''telegram_id'' (user_id_val contact)
             (AList.update ''phone'' (JStr (phone_number contact))
                (AList.update ''status'' (JStr ''verified'') session))))"
  by (simp add: spread_def verified_update_def)

lemma webhook_body_server:
  assumes "user_id contact = Some u" and "secret \<noteq> JUndefined"
  shows "webhook_body tok (verified_update now contact) secret =
     [(''event'', JStr ''verification_success''), (''token'', JStr tok),
      (''status'', JStr ''verified''), (''phone'', JStr (phone_number contact)),
      (''telegram_id'', JNum u), (''first_name'', JStr (first_name contact)),
      (''verified_at'', JNum now), (''secret'', secret)]"
  using assms
  by (simp add: webhook_body_def spread_def verified_update_def json_stringify_def
      user_id_val_Some)

text \<open>
  The server's commit, for every input that reaches it: the stored session gets its five
  fields from the contact card and the clock, and the webhook body has the eight fields of
  the specification, in its order.
\<close>

lemma server_commit:
  assumes own: "user_id contact = Some sender"
    and found: "findByChatId storage (JNum chat) = Some (tok, session)"
    and stored: "get storage tok = Some session"
    and match: "fld session ''expected_phone'' = JStr (normalizePhone (phone_number contact))"
  shows "bot_on_contact storage now chat sender contact =
     (AList.update tok (spread session (verified_update now contact)) storage,
      (if truthy (fld session ''webhook_url'')
       then [WebhookPost (fld session ''webhook_url'')
               (webhook_body tok (verified_update now contact) (fld session ''client_secret''))]
       else [])
      @ [Reply chat (VerificationComplete (first_name contact))])"
    and "fld (spread session (verified_update now contact)) ''status'' = JStr ''verified''"
    and "fld (spread session (verified_update now contact)) ''phone''
           = JStr (phone_number contact)"
    and "fld (spread session (verified_update now contact)) ''telegram_id'' = JNum sender"
    and "fld (spread session (verified_update now contact)) ''first_name''
           = JStr (first_name contact)"
    and "fld (spread session (verified_update now contact)) ''verified_at'' = JNum now"
proof -
  from stored have m: "map_of storage tok = Some session"
    by (simp add: get_def)
  show "bot_on_contact storage now chat sender contact =
     (AList.update tok (spread session (verified_update now contact)) storage,
      (if truthy (fld session ''webhook_url'')
       then [WebhookPost (fld session ''webhook_url'')
               (webhook_body tok (verified_update now contact) (fld session ''client_secret''))]
       else [])
      @ [Reply chat (VerificationComplete (first_name contact))])"
    using own found match m
    by (simp add: bot_on_contact_def user_id_val_Some update_def Let_def)
qed (simp_all add: spread_verified_update fld_update user_id_val_Some [OF own])

text \<open>
  Claim C5 holds of the server and fails in the worker: the worker's update has no
  \<open>verified_at\<close>. A pending session bound to chat 555, with a webhook URL and a secret,
  receives the matching contact: the stored document gains \<open>phone\<close>, \<open>telegram_id\<close> and
  \<open>first_name\<close> only, and the webhook body has seven fields, \<open>verified_at\<close> not among them.
\<close>

theorem worker_commit_without_verified_at:
  "handleTelegramWebhook
     [(''T'', [(''status'', JStr ''pending''), (''expected_phone'', JStr ''251911234567''),
               (''webhook_url'', JStr ''https://app.example/cb''),
               (''client_secret'', JStr ''s3cret''),
               (''created_at'', JTime 1000), (''expires_at'', JTime 3601000),
               (''chat_id'', JNum 555)])]
     (Some \<lparr>msg_chat = 555, msg_from = 42, msg_text = None,
            msg_contact = Some \<lparr>phone_number = ''0911234567'', first_name = ''Abebe'',
                                  user_id = Some 42\<rparr>\<rparr>)
   = ([(''T'', [(''status'', JStr ''verified''), (''expected_phone'', JStr ''251911234567''),
                (''webhook_url'', JStr ''https://app.example/cb''),
                (''client_secret'', JStr ''s3cret''),
                (''created_at'', JTime 1000), (''expires_at'', JTime 3601000),
                (''chat_id'', JNum 555), (''phone'', JStr ''0911234567''),
                (''telegram_id'', JNum 42), (''first_name'', JStr ''Abebe'')])],
      [WebhookPost (JStr ''https://app.example/cb'')
         [(''event'', JStr ''verification_success''), (''token'', JStr ''T''),
          (''status'', JStr ''verified''), (''phone'', JStr ''0911234567''),
          (''telegram_id'', JNum 42), (''first_name'', JStr ''Abebe''),
          (''secret'', JStr ''s3cret'')],
       Reply 555 VerifiedReturn])
   \<and> map_of (worker_update contact) ''verified_at'' = None
   \<and> map_of (webhook_body token (worker_update contact) secret) ''verified_at'' = None"
proof -
  have "map_of (webhook_body token (worker_update contact) secret) ''verified_at'' = None"
    by (simp add: webhook_body_def worker_update_def spread_def json_stringify_def)
  moreover have "map_of (worker_update contact) ''verified_at'' = None"
    by (simp add: worker_update_def)
  moreover have "handleTelegramWebhook
     [(''T'', [(''status'', JStr ''pending''), (''expected_phone'', JStr ''251911234567''),
               (''webhook_url'', JStr ''https://app.example/cb''),
               (''client_secret'', JStr ''s3cret''),
               (''created_at'', JTime 1000), (''expires_at'', JTime 3601000),
               (''chat_id'', JNum 555)])]
     (Some \<lparr>msg_chat = 555, msg_from = 42, msg_text = None,
            msg_contact = Some \<lparr>phone_number = ''0911234567'', first_name = ''Abebe'',
                                  user_id = Some 42\<rparr>\<rparr>)
   = ([(''T'', [(''status'', JStr ''verified''), (''expected_phone'', JStr ''251911234567''),
                (''webhook_url'', JStr ''https://app.example/cb''),
                (''client_secret'', JStr ''s3cret''),
                (''created_at'', JTime 1000), (''expires_at'', JTime 3601000),
                (''chat_id'', JNum 555), (''phone'', JStr ''0911234567''),
                (''telegram_id'', JNum 42), (''first_name'', JStr ''Abebe'')])],
      [WebhookPost (JStr ''https://app.example/cb'')
         [(''event'', JStr ''verification_success''), (''token'', JStr ''T''),
          (''status'', JStr ''verified''), (''phone'', JStr ''0911234567''),
          (''telegram_id'', JNum 42), (''first_name'', JStr ''Abebe''),
          (''secret'', JStr ''s3cret'')],
       Reply 555 VerifiedReturn])"
    by code_simp
  ultimately show ?thesis by blast
qed

section \<open>Creating a session\<close>

text \<open>
  Claim C6, as stated, fails: a token already in the store is overwritten, by the store's
  \<open>create\<close>, by the service above it, and by the worker's \<open>createDoc\<close> and \<open>handleInit\<close>. In
  each conjunct the store holds a verified session under \<open>T\<close> and a new session is created
  under the same token; nothing is reported back but the token.
\<close>

theorem create_overwrites_counterexample:
  "create [(''T'', [(''status'', JStr ''verified''), (''expected_phone'', JStr ''251911234567'')])]
     ''T'' [(''status'', JStr ''pending''), (''expected_phone'', JStr ''251922334455'')]
   = ([(''T'', [(''status'', JStr ''pending''), (''expected_phone'', JStr ''251922334455'')])],
      ''T'')
   \<and> createSession
       [(''T'', [(''status'', JStr ''verified''), (''expected_phone'', JStr ''251911234567'')])]
       ''T'' 5000 ''0922334455'' JUndefined JUndefined
   = ([(''T'', [(''status'', JStr ''pending''), (''expected_phone'', JStr ''251922334455''),
                (''webhook_url'', JNull), (''client_secret'', JNull),
                (''created_at'', JNum 5000), (''expires_at'', JNum 605000)])],
      ''T'',
      [(''status'', JStr ''pending''), (''expected_phone'', JStr ''251922334455''),
       (''webhook_url'', JNull), (''client_secret'', JNull),
       (''created_at'', JNum 5000), (''expires_at'', JNum 605000)])
   \<and> createDoc
       [(''T'', [(''status'', JStr ''verified''), (''expected_phone'', JStr ''251911234567'')])]
       ''T'' [(''status'', JStr ''pending''), (''expected_phone'', JStr ''251922334455'')]
   = [(''T'', [(''status'', JStr ''pending''), (''expected_phone'', JStr ''251922334455'')])]
   \<and> handleInit (\<lambda>url. True) ''FreeAuthBot'' 0
       [(''T'', [(''status'', JStr ''verified''), (''expected_phone'', JStr ''251911234567'')])]
       ''T'' 5000 [(''phone'', JStr ''0922334455'')]
   = ([(''T'', [(''status'', JStr ''pending''), (''expected_phone'', JStr ''251922334455''),
                (''webhook_url'', JNull), (''client_secret'', JNull),
                (''created_at'', JTime 5000), (''expires_at'', JTime 3605000)])],
      Json 200 [(''token'', JStr ''T''),
                (''bot_link'', JStr ''https://t.me/FreeAuthBot?start=T''),
                (''expires_in'', JNum 3600)])"
  by code_simp

text \<open>
  Claim C6, amended. Creating a session never fails and never reports a conflict: the
  store's \<open>create\<close> puts the session under the token, in place of whatever was stored
  under it, leaves every other token as it was and returns the token; \<open>createSession\<close>
  stores the fresh pending session in this way under the token drawn, taken or not; the
  worker's \<open>createDoc\<close> does the same with the encoded document, and \<open>handleInit\<close>, once
  the phone and the webhook URL are accepted, answers 200 with that token.
\<close>

theorem create_is_upsert:
  "map_of (fst (create storage token data)) = (map_of storage)(token \<mapsto> data)
   \<and> snd (create storage token data) = token
   \<and> get (fst (create storage token data)) token = Some data
   \<and> createSession storage token now phone webhook_url client_secret
       = (fst (create storage token (sessionData_of now phone webhook_url client_secret)),
          token, sessionData_of now phone webhook_url client_secret)
   \<and> map_of (createDoc docs token data) = (map_of docs)(token \<mapsto> toFirestore data)
   \<and> (fld body ''phone'' = JStr phone' \<and> validatePhoneNumber (JStr phone')
        \<and> validateWebhookUrl is_https (fld body ''webhook_url'') \<longrightarrow>
      handleInit is_https bot_username max_age docs token now body
       = (createDoc docs token (docData_of now max_age phone' body),
          Json 200 [(''token'', JStr token),
                    (''bot_link'', JStr (''https://t.me/'' @ bot_username @ ''?start='' @ token)),
                    (''expires_in'', JNum (session_age max_age))]))"
proof -
  have "validatePhoneNumber (JStr phone') \<Longrightarrow> phone' \<noteq> []"
    by (auto simp add: validatePhoneNumber_def)
  then show ?thesis
    by (auto simp add: create_def get_def update_conv' createSession_def createDoc_def
        handleInit_def Let_def)
qed

theorem create_is_upsert_witness:
  "handleInit (\<lambda>url. url = JStr ''https://app.example/cb'') ''FreeAuthBot'' 0
       [(''T'', [(''status'', JStr ''verified''), (''expected_phone'', JStr ''251911234567'')])]
       ''T'' 5000
       [(''phone'', JStr ''0922334455''), (''webhook_url'', JStr ''https://app.example/cb'')]
   = ([(''T'', [(''status'', JStr ''pending''), (''expected_phone'', JStr ''251922334455''),
                (''webhook_url'', JStr ''https://app.example/cb''), (''client_secret'', JNull),
                (''created_at'', JTime 5000), (''expires_at'', JTime 3605000)])],
      Json 200 [(''token'', JStr ''T''),
                (''bot_link'', JStr ''https://t.me/FreeAuthBot?start=T''),
                (''expires_in'', JNum 3600)])"
proof -
  let ?body = "[(''phone'', JStr ''0922334455''),
                (''webhook_url'', JStr ''https://app.example/cb'')]"
  let ?https = "\<lambda>url. url = JStr ''https://app.example/cb''"
  let ?docs = "[(''T'', [(''status'', JStr ''verified''),
                         (''expected_phone'', JStr ''251911234567'')])]"
  have h: "fld ?body ''phone'' = JStr ''0922334455'' \<and> validatePhoneNumber (JStr ''0922334455'')
           \<and> validateWebhookUrl ?https (fld ?body ''webhook_url'')"
    by code_simp
  have d: "createDoc ?docs ''T'' (docData_of 5000 0 ''0922334455'' ?body)
     = [(''T'', [(''status'', JStr ''pending''), (''expected_phone'', JStr ''251922334455''),
                (''webhook_url'', JStr ''https://app.example/cb''), (''client_secret'', JNull),
                (''created_at'', JTime 5000), (''expires_at'', JTime 3605000)])]"
    by code_simp
  have a: "session_age 0 = 3600"
    by (simp add: session_age_def)
  from h create_is_upsert [where body = ?body and phone' = "''0922334455''"
      and is_https = ?https and bot_username = "''FreeAuthBot''" and max_age = 0
      and docs = ?docs and token = "''T''" and now = 5000]
  have "handleInit ?https ''FreeAuthBot'' 0 ?docs ''T'' 5000 ?body
       = (createDoc ?docs ''T'' (docData_of 5000 0 ''0922334455'' ?body),
          Json 200 [(''token'', JStr ''T''),
                    (''bot_link'', JStr (''https://t.me/'' @ ''FreeAuthBot'' @ ''?start='' @ ''T'')),
                    (''expires_in'', JNum (session_age 0))])"
    by blast
  then show ?thesis
    by (simp add: d a)
qed

section \<open>A phone mismatch and the retry\<close>

lemma member_map_of_defined: "(k, v) \<in> set al \<Longrightarrow> \<exists>w. map_of al k = Some w"
  by (metis map_of_eq_None_iff image_eqI fst_conv not_Some_eq)

lemma status_after_commit:
  assumes "user_id contact = Some u" and "map_of storage tok = Some existing"
  shows "map_option (\<lambda>s. fld s ''status'')
           (get (fst (update storage tok (verified_update now contact))) tok)
         = Some (JStr ''verified'')"
  using assms
  by (simp add: update_def get_def update_conv' spread_verified_update fld_update)

lemma worker_status_after_commit:
  assumes "user_id contact = Some u"
  shows "map_option (\<lambda>s. fld s ''status'')
           (map_of (updateDoc docs tok (worker_update contact)) tok)
         = Some (JStr ''verified'')"
  using assms
  by (simp add: updateDoc_def worker_update_def update_conv' fld_update user_id_val_Some)

lemma bot_on_contact_found:
  assumes "user_id contact = Some sender"
    and "findByChatId storage (JNum chat) = Some (tok, session)"
  shows "bot_on_contact storage now chat sender contact =
     (if JStr (normalizePhone (phone_number contact)) \<noteq> fld session ''expected_phone''
      then (storage, [Reply chat VerificationFailed])
      else (fst (update storage tok (verified_update now contact)),
            (if truthy (fld session ''webhook_url'')
             then [WebhookPost (fld session ''webhook_url'')
                     (webhook_body tok (verified_update now contact)
                        (fld session ''client_secret''))]
             else [])
            @ [Reply chat (VerificationComplete (first_name contact))]))"
  using assms by (simp add: bot_on_contact_def user_id_val_Some Let_def)

lemma worker_contact_found:
  assumes "user_id contact = Some (msg_from msg)"
    and "find (\<lambda>(ident, data). fld data ''status'' = JStr ''pending'')
           (queryDocs docs ''chat_id'' (JNum (msg_chat msg))) = Some (tok, data)"
  shows "worker_contact docs msg contact =
     (if JStr (normalizePhone (phone_number contact)) \<noteq> fld data ''expected_phone''
      then (docs, [Reply (msg_chat msg) PhoneMismatch])
      else (updateDoc docs tok (worker_update contact),
            (if truthy (fld data ''webhook_url'')
             then [WebhookPost (fld data ''webhook_url'')
                     (webhook_body tok (worker_update contact) (fld data ''client_secret''))]
             else [])
            @ [Reply (msg_chat msg) VerifiedReturn]))"
  using assms
  by (simp add: worker_contact_def worker_contact_read_def worker_contact_write_def
      user_id_val_Some Let_def)

text \<open>
  Claim C8. A contact that passes the ownership check and whose normalised phone differs
  from the \<open>expected_phone\<close> of the pending session bound to the chat gets the
  ``verification failed'' reply, and the store is left exactly as it was, the session still
  pending. A later contact in the same chat whose normalised phone equals
  \<open>expected_phone\<close> then commits: the session's stored status is \<open>verified\<close>. Both hold
  of the server's handler and of the worker's.
\<close>

theorem mismatch_then_retry:
  "(user_id contact = Some sender
    \<and> findByChatId storage (JNum chat) = Some (tok, session)
    \<and> JStr (normalizePhone (phone_number contact)) \<noteq> fld session ''expected_phone'' \<longrightarrow>
      bot_on_contact storage now chat sender contact = (storage, [Reply chat VerificationFailed])
      \<and> fld session ''status'' = JStr ''pending''
      \<and> (user_id contact' = Some sender'
           \<and> JStr (normalizePhone (phone_number contact')) = fld session ''expected_phone'' \<longrightarrow>
          map_option (\<lambda>s. fld s ''status'')
            (get (fst (bot_on_contact (fst (bot_on_contact storage now chat sender contact))
                         now' chat sender' contact')) tok)
          = Some (JStr ''verified'')))
   \<and> (user_id wcontact = Some (msg_from msg)
       \<and> find (\<lambda>(ident, data). fld data ''status'' = JStr ''pending'')
            (queryDocs docs ''chat_id'' (JNum (msg_chat msg))) = Some (ident, doc)
       \<and> JStr (normalizePhone (phone_number wcontact)) \<noteq> fld doc ''expected_phone'' \<longrightarrow>
      worker_contact docs msg wcontact = (docs, [Reply (msg_chat msg) PhoneMismatch])
      \<and> fld doc ''status'' = JStr ''pending''
      \<and> (user_id wcontact' = Some (msg_from msg') \<and> msg_chat msg' = msg_chat msg
           \<and> JStr (normalizePhone (phone_number wcontact')) = fld doc ''expected_phone'' \<longrightarrow>
          map_option (\<lambda>s. fld s ''status'')
            (map_of (fst (worker_contact (fst (worker_contact docs msg wcontact)) msg' wcontact')) ident)
          = Some (JStr ''verified'')))"
proof (intro conjI impI)
  assume a: "user_id contact = Some sender
    \<and> findByChatId storage (JNum chat) = Some (tok, session)
    \<and> JStr (normalizePhone (phone_number contact)) \<noteq> fld session ''expected_phone''"
  then show first: "bot_on_contact storage now chat sender contact
      = (storage, [Reply chat VerificationFailed])"
    by (simp add: bot_on_contact_found)
  from a show "fld session ''status'' = JStr ''pending''"
    using findByChatId_Some by blast
  assume b: "user_id contact' = Some sender'
           \<and> JStr (normalizePhone (phone_number contact')) = fld session ''expected_phone''"
  from a have "(tok, session) \<in> set storage"
    using findByChatId_Some by blast
  then obtain existing where ex: "map_of storage tok = Some existing"
    using member_map_of_defined by fastforce
  from a b have "bot_on_contact storage now' chat sender' contact' =
      (fst (update storage tok (verified_update now' contact')),
            (if truthy (fld session ''webhook_url'')
             then [WebhookPost (fld session ''webhook_url'')
                     (webhook_body tok (verified_update now' contact')
                        (fld session ''client_secret''))]
             else [])
            @ [Reply chat (VerificationComplete (first_name contact'))])"
    by (simp add: bot_on_contact_found)
  with first b ex show "map_option (\<lambda>s. fld s ''status'')
            (get (fst (bot_on_contact (fst (bot_on_contact storage now chat sender contact))
                         now' chat sender' contact')) tok)
          = Some (JStr ''verified'')"
    by (simp add: status_after_commit)
next
  assume a: "user_id wcontact = Some (msg_from msg)
       \<and> find (\<lambda>(ident, data). fld data ''status'' = JStr ''pending'')
            (queryDocs docs ''chat_id'' (JNum (msg_chat msg))) = Some (ident, doc)
       \<and> JStr (normalizePhone (phone_number wcontact)) \<noteq> fld doc ''expected_phone''"
  then show first: "worker_contact docs msg wcontact = (docs, [Reply (msg_chat msg) PhoneMismatch])"
    by (simp add: worker_contact_found)
  from a show "fld doc ''status'' = JStr ''pending''"
    using find_Some_member by fastforce
  assume b: "user_id wcontact' = Some (msg_from msg') \<and> msg_chat msg' = msg_chat msg
           \<and> JStr (normalizePhone (phone_number wcontact')) = fld doc ''expected_phone''"
  with a have "worker_contact docs msg' wcontact' =
      (updateDoc docs ident (worker_update wcontact'),
            (if truthy (fld doc ''webhook_url'')
             then [WebhookPost (fld doc ''webhook_url'')
                     (webhook_body ident (worker_update wcontact') (fld doc ''client_secret''))]
             else [])
            @ [Reply (msg_chat msg') VerifiedReturn])"
    by (simp add: worker_contact_found)
  with first b show "map_option (\<lambda>s. fld s ''status'')
            (map_of (fst (worker_contact (fst (worker_contact docs msg wcontact)) msg' wcontact')) ident)
          = Some (JStr ''verified'')"
    by (simp add: worker_status_after_commit)
qed

theorem mismatch_then_retry_witness:
  "bot_on_contact
     [(''T'', [(''status'', JStr ''pending''), (''expected_phone'', JStr ''251911234567''),
               (''expires_at'', JNum 601000), (''chat_id'', JNum 555)])]
     2000 555 42 \<lparr>phone_number = ''0922334455'', first_name = ''Abebe'', user_id = Some 42\<rparr>
   = ([(''T'', [(''status'', JStr ''pending''), (''expected_phone'', JStr ''251911234567''),
                (''expires_at'', JNum 601000), (''chat_id'', JNum 555)])],
      [Reply 555 VerificationFailed])
   \<and> map_option (\<lambda>s. fld s ''status'')
         (get (fst (bot_on_contact
                 (fst (bot_on_contact
                    [(''T'', [(''status'', JStr ''pending''),
                              (''expected_phone'', JStr ''251911234567''),
                              (''expires_at'', JNum 601000), (''chat_id'', JNum 555)])]
                    2000 555 42
                    \<lparr>phone_number = ''0922334455'', first_name = ''Abebe'',
                      user_id = Some 42\<rparr>))
                 3000 555 42
                 \<lparr>phone_number = ''+251 911 234567'', first_name = ''Abebe'',
                   user_id = Some 42\<rparr>))
            ''T'')
     = Some (JStr ''verified'')
   \<and> worker_contact
     [(''T'', [(''status'', JStr ''pending''), (''expected_phone'', JStr ''251911234567''),
               (''expires_at'', JTime 3601000), (''chat_id'', JNum 555)])]
     \<lparr>msg_chat = 555, msg_from = 42, msg_text = None,
       msg_contact = Some \<lparr>phone_number = ''0922334455'', first_name = ''Abebe'',
                             user_id = Some 42\<rparr>\<rparr>
     \<lparr>phone_number = ''0922334455'', first_name = ''Abebe'', user_id = Some 42\<rparr>
   = ([(''T'', [(''status'', JStr ''pending''), (''expected_phone'', JStr ''251911234567''),
                (''expires_at'', JTime 3601000), (''chat_id'', JNum 555)])],
      [Reply 555 PhoneMismatch])
   \<and> map_option (\<lambda>s. fld s ''status'')
         (map_of (fst (worker_contact
                 (fst (worker_contact
                    [(''T'', [(''status'', JStr ''pending''),
                              (''expected_phone'', JStr ''251911234567''),
                              (''expires_at'', JTime 3601000), (''chat_id'', JNum 555)])]
                    \<lparr>msg_chat = 555, msg_from = 42, msg_text = None,
                      msg_contact = Some \<lparr>phone_number = ''0922334455'',
                                            first_name = ''Abebe'', user_id = Some 42\<rparr>\<rparr>
                    \<lparr>phone_number = ''0922334455'', first_name = ''Abebe'',
                      user_id = Some 42\<rparr>))
                 \<lparr>msg_chat = 555, msg_from = 42, msg_text = None,
                   msg_contact = Some \<lparr>phone_number = ''+251 911 234567'',
                                         first_name = ''Abebe'', user_id = Some 42\<rparr>\<rparr>
                 \<lparr>phone_number = ''+251 911 234567'', first_name = ''Abebe'',
                   user_id = Some 42\<rparr>))
            ''T'')
     = Some (JStr ''verified'')"
proof -
  let ?s = "[(''status'', JStr ''pending''), (''expected_phone'', JStr ''251911234567''),
             (''expires_at'', JNum 601000), (''chat_id'', JNum 555)]"
  let ?d = "[(''status'', JStr ''pending''), (''expected_phone'', JStr ''251911234567''),
             (''expires_at'', JTime 3601000), (''chat_id'', JNum 555)]"
  let ?bad = "\<lparr>phone_number = ''0922334455'', first_name = ''Abebe'', user_id = Some 42\<rparr>"
  let ?good = "\<lparr>phone_number = ''+251 911 234567'', first_name = ''Abebe'',
                user_id = Some 42\<rparr>"
  let ?m = "\<lparr>msg_chat = 555, msg_from = 42, msg_text = None, msg_contact = Some ?bad\<rparr>"
  let ?m' = "\<lparr>msg_chat = 555, msg_from = 42, msg_text = None, msg_contact = Some ?good\<rparr>"
  have h1: "user_id ?bad = Some 42
    \<and> findByChatId [(''T'', ?s)] (JNum 555) = Some (''T'', ?s)
    \<and> JStr (normalizePhone (phone_number ?bad)) \<noteq> fld ?s ''expected_phone''"
    by code_simp
  have h2: "user_id ?good = Some 42
    \<and> JStr (normalizePhone (phone_number ?good)) = fld ?s ''expected_phone''"
    by code_simp
  have h3: "user_id ?bad = Some (msg_from ?m)
       \<and> find (\<lambda>(ident, data). fld data ''status'' = JStr ''pending'')
            (queryDocs [(''T'', ?d)] ''chat_id'' (JNum (msg_chat ?m))) = Some (''T'', ?d)
       \<and> JStr (normalizePhone (phone_number ?bad)) \<noteq> fld ?d ''expected_phone''"
    by code_simp
  have h4: "user_id ?good = Some (msg_from ?m') \<and> msg_chat ?m' = msg_chat ?m
           \<and> JStr (normalizePhone (phone_number ?good)) = fld ?d ''expected_phone''"
    by code_simp
  have c: "msg_chat ?m = 555"
    by simp
  from h1 h2 h3 h4
    mismatch_then_retry [where contact = ?bad and sender = 42 and storage = "[(''T'', ?s)]"
      and chat = 555 and tok = "''T''" and session = ?s and now = 2000
      and contact' = ?good and sender' = 42 and now' = 3000
      and wcontact = ?bad and msg = ?m and docs = "[(''T'', ?d)]" and ident = "''T''"
      and doc = ?d and wcontact' = ?good and msg' = ?m']
  show ?thesis
    unfolding c by blast
qed

section \<open>The status check never shows the secret\<close>

lemma map_of_json_stringify_absent:
  "map_of obj k = None \<Longrightarrow> map_of (json_stringify obj) k = None"
  by (auto simp add: json_stringify_def map_of_eq_None_iff)

lemma map_of_rest_without_same: "map_of (rest_without k obj) k = None"
  by (simp add: rest_without_def delete_conv')

lemma secret_absent: "map_of (json_stringify (rest_without k obj)) k = None"
  by (simp add: map_of_json_stringify_absent map_of_rest_without_same)

lemma fld_rest_without: "k' \<noteq> k \<Longrightarrow> fld (rest_without k obj) k' = fld obj k'"
  by (simp add: fld_def rest_without_def)

lemma rest_without_update:
  "k' \<noteq> k \<Longrightarrow> rest_without k (AList.update k' v obj) = AList.update k' v (rest_without k obj)"
  by (simp add: rest_without_def delete_update)

lemma rest_without_fromFirestore:
  "rest_without k (fromFirestore obj) = fromFirestore (rest_without k obj)"
  by (induction obj) (auto simp add: rest_without_def fromFirestore_def)

lemma fld_same_outside:
  assumes "rest_without k a = rest_without k b" and "k' \<noteq> k"
  shows "fld a k' = fld b k'"
  using fld_rest_without [OF assms(2), of a] fld_rest_without [OF assms(2), of b] assms(1)
  by simp

lemma check_route_body:
  "snd (check_route storage token now) =
     (case get storage token of
        None \<Rightarrow> Json 404 [(''error'', JStr ''Token not found'')]
      | Some session \<Rightarrow>
          Json 200 (json_stringify
            (if truthy (fld session ''expires_at'') \<and> js_gt now (fld session ''expires_at'')
             then AList.update ''status'' (JStr ''expired'') (rest_without ''client_secret'' session)
             else rest_without ''client_secret'' session)))"
  by (simp add: check_route_def getSession_def rest_without_update split: option.splits)

lemma handleCheck_body:
  "snd (handleCheck docs token now) =
     (case getDoc docs token of
        None \<Rightarrow> Json 404 [(''error'', JStr ''Token not found'')]
      | Some doc \<Rightarrow>
          Json 200 (json_stringify
            (if truthy (fld doc ''expires_at'') \<and> date_lt (fld doc ''expires_at'') now
             then AList.update ''status'' (JStr ''expired'') (rest_without ''client_secret'' doc)
             else rest_without ''client_secret'' doc)))"
  by (simp add: handleCheck_def rest_without_update split: option.splits)

lemma check_route_same:
  assumes "map_option (rest_without ''client_secret'') (get storage token)
           = map_option (rest_without ''client_secret'') (get storage' token)"
  shows "snd (check_route storage token now) = snd (check_route storage' token now)"
proof (cases "get storage token")
  case None
  with assms have "get storage' token = None" by simp
  with None show ?thesis by (simp add: check_route_body)
next
  case (Some a)
  with assms obtain b where b: "get storage' token = Some b"
    and eq: "rest_without ''client_secret'' a = rest_without ''client_secret'' b"
    by (cases "get storage' token") auto
  have "fld a ''expires_at'' = fld b ''expires_at''"
    by (rule fld_same_outside [OF eq]) simp
  with Some b eq show ?thesis
    by (simp add: check_route_body)
qed

lemma handleCheck_same:
  assumes "map_option (rest_without ''client_secret'') (map_of docs token)
           = map_option (rest_without ''client_secret'') (map_of docs' token)"
    and "(map_of docs token = Some []) = (map_of docs' token = Some [])"
  shows "snd (handleCheck docs token now) = snd (handleCheck docs' token now)"
proof (cases "map_of docs token")
  case None
  with assms have "map_of docs' token = None" by simp
  with None show ?thesis by (simp add: handleCheck_body getDoc_def)
next
  case (Some a)
  with assms obtain b where b: "map_of docs' token = Some b"
    and eq: "rest_without ''client_secret'' a = rest_without ''client_secret'' b"
    by (cases "map_of docs' token") auto
  from Some b assms(2) have empty: "(a = []) = (b = [])" by simp
  have eq': "rest_without ''client_secret'' (fromFirestore a)
             = rest_without ''client_secret'' (fromFirestore b)"
    by (simp add: rest_without_fromFirestore eq)
  have "fld (fromFirestore a) ''expires_at'' = fld (fromFirestore b) ''expires_at''"
    by (rule fld_same_outside [OF eq']) simp
  with Some b eq' empty show ?thesis
    by (simp add: handleCheck_body getDoc_def)
qed

text \<open>
  Claim C7. Whatever the store, the token and the time, the body that the check route
  answers with has no \<open>client_secret\<close> field, in the server and in the worker. And the
  answer does not depend on the secret: two stores whose sessions under the token are the
  same once \<open>client_secret\<close> is left out get the same response.
\<close>

theorem check_hides_client_secret:
  "(case snd (check_route storage token now) of
      Json code body \<Rightarrow> map_of body ''client_secret'' = None)
   \<and> (case snd (handleCheck docs token now) of
        Json code body \<Rightarrow> map_of body ''client_secret'' = None)
   \<and> (map_option (rest_without ''client_secret'') (get storage token)
        = map_option (rest_without ''client_secret'') (get storage' token) \<longrightarrow>
       snd (check_route storage token now) = snd (check_route storage' token now))
   \<and> (map_option (rest_without ''client_secret'') (map_of docs token)
        = map_option (rest_without ''client_secret'') (map_of docs' token)
       \<and> (map_of docs token = Some []) = (map_of docs' token = Some []) \<longrightarrow>
       snd (handleCheck docs token now) = snd (handleCheck docs' token now))"
proof (intro conjI impI)
  show "case snd (check_route storage token now) of
      Json code body \<Rightarrow> map_of body ''client_secret'' = None"
    by (simp add: check_route_def getSession_def secret_absent split: option.splits)
  show "case snd (handleCheck docs token now) of
        Json code body \<Rightarrow> map_of body ''client_secret'' = None"
    by (simp add: handleCheck_def secret_absent split: option.splits)
next
  assume "map_option (rest_without ''client_secret'') (get storage token)
        = map_option (rest_without ''client_secret'') (get storage' token)"
  then show "snd (check_route storage token now) = snd (check_route storage' token now)"
    by (rule check_route_same)
next
  assume "map_option (rest_without ''client_secret'') (map_of docs token)
        = map_option (rest_without ''client_secret'') (map_of docs' token)
       \<and> (map_of docs token = Some []) = (map_of docs' token = Some [])"
  then show "snd (handleCheck docs token now) = snd (handleCheck docs' token now)"
    using handleCheck_same by blast
qed

theorem check_hides_client_secret_witness:
  "snd (check_route
          [(''T'', [(''status'', JStr ''pending''), (''expected_phone'', JStr ''251911234567''),
                    (''client_secret'', JStr ''alpha''), (''expires_at'', JNum 601000)])]
          ''T'' 2000)
   = snd (check_route
          [(''T'', [(''status'', JStr ''pending''), (''expected_phone'', JStr ''251911234567''),
                    (''client_secret'', JStr ''beta''), (''expires_at'', JNum 601000)])]
          ''T'' 2000)
   \<and> snd (handleCheck
          [(''T'', [(''status'', JStr ''pending''), (''expected_phone'', JStr ''251911234567''),
                    (''client_secret'', JStr ''alpha''), (''expires_at'', JTime 3601000)])]
          ''T'' 2000)
   = snd (handleCheck
          [(''T'', [(''status'', JStr ''pending''), (''expected_phone'', JStr ''251911234567''),
                    (''client_secret'', JNull), (''expires_at'', JTime 3601000)])]
          ''T'' 2000)"
proof -
  let ?a = "[(''status'', JStr ''pending''), (''expected_phone'', JStr ''251911234567''),
             (''client_secret'', JStr ''alpha''), (''expires_at'', JNum 601000)]"
  let ?b = "[(''status'', JStr ''pending''), (''expected_phone'', JStr ''251911234567''),
             (''client_secret'', JStr ''beta''), (''expires_at'', JNum 601000)]"
  let ?c = "[(''status'', JStr ''pending''), (''expected_phone'', JStr ''251911234567''),
             (''client_secret'', JStr ''alpha''), (''expires_at'', JTime 3601000)]"
  let ?d = "[(''status'', JStr ''pending''), (''expected_phone'', JStr ''251911234567''),
             (''client_secret'', JNull), (''expires_at'', JTime 3601000)]"
  have h1: "map_option (rest_without ''client_secret'') (get [(''T'', ?a)] ''T'')
        = map_option (rest_without ''client_secret'') (get [(''T'', ?b)] ''T'')"
    by (simp add: get_def rest_without_def)
  have h2: "map_option (rest_without ''client_secret'') (map_of [(''T'', ?c)] ''T'')
        = map_option (rest_without ''client_secret'') (map_of [(''T'', ?d)] ''T'')
       \<and> (map_of [(''T'', ?c)] ''T'' = Some []) = (map_of [(''T'', ?d)] ''T'' = Some [])"
    by (simp add: rest_without_def)
  from h1 h2
    check_hides_client_secret [where storage = "[(''T'', ?a)]" and storage' = "[(''T'', ?b)]"
      and docs = "[(''T'', ?c)]" and docs' = "[(''T'', ?d)]" and token = "''T''" and now = 2000]
  show ?thesis by blast
qed

section \<open>Two deliveries for one token\<close>

lemma set_update_distinct:
  "distinct (map fst al) \<Longrightarrow> x \<in> set (AList.update k v al) \<Longrightarrow>
   x = (k, v) \<or> (x \<in> set al \<and> fst x \<noteq> k)"
  by (induction al) (auto split: if_splits simp add: rev_image_eqI)

lemma find_None_all: "(\<And>x. x \<in> set xs \<Longrightarrow> \<not> P x) \<Longrightarrow> find P xs = None"
  by (simp add: find_None_iff)

text \<open>
  In the server the lookup \<open>findByChatId\<close> and the write \<open>update\<close> of one contact
  delivery run with no \<^verbatim>\<open>await\<close> between them, so two deliveries are handled one after
  the other whatever their arrival. When the session found is the only pending one bound
  to the chat, the second delivery finds nothing: it replies, writes nothing and calls no
  webhook.
\<close>

lemma server_second_delivery:
  assumes keys: "distinct (map fst storage)"
    and own: "user_id contact = Some sender"
    and found: "findByChatId storage (JNum chat) = Some (tok, session)"
    and match: "fld session ''expected_phone'' = JStr (normalizePhone (phone_number contact))"
    and only: "\<And>t s. (t, s) \<in> set storage \<Longrightarrow> t \<noteq> tok \<Longrightarrow>
                 \<not> (fld s ''chat_id'' = JNum chat \<and> fld s ''status'' = JStr ''pending'')"
    and own': "user_id contact' = Some sender'"
  shows "bot_on_contact (fst (bot_on_contact storage now chat sender contact))
           now' chat sender' contact'
         = (fst (bot_on_contact storage now chat sender contact),
            [Reply chat SessionExpiredRetry])"
proof -
  from found have mem: "(tok, session) \<in> set storage"
    using findByChatId_Some by blast
  with keys have stored: "get storage tok = Some session"
    by (simp add: get_def)
  let ?new = "spread session (verified_update now contact)"
  have first: "fst (bot_on_contact storage now chat sender contact)
               = AList.update tok ?new storage"
    using server_commit(1) [OF own found stored match] by simp
  have "findByChatId (AList.update tok ?new storage) (JNum chat) = None"
    unfolding findByChatId_def
  proof (rule find_None_all)
    fix x assume "x \<in> set (AList.update tok ?new storage)"
    then consider "x = (tok, ?new)" | "x \<in> set storage" "fst x \<noteq> tok"
      using set_update_distinct [OF keys] by blast
    then show "\<not> (case x of (token, data) \<Rightarrow>
        fld data ''chat_id'' = JNum chat \<and> fld data ''status'' = JStr ''pending'')"
    proof cases
      case 1
      then show ?thesis
        by (simp add: server_commit(2) [OF own found stored match])
    next
      case 2
      then show ?thesis
        using only [of "fst x" "snd x"] by (cases x) auto
    qed
  qed
  with own' have "bot_on_contact (AList.update tok ?new storage) now' chat sender' contact'
      = (AList.update tok ?new storage, [Reply chat SessionExpiredRetry])"
    by (simp add: bot_on_contact_def user_id_val_Some)
  then show ?thesis
    by (simp only: first)
qed

text \<open>
  The worker, for any store and any two deliveries that both pass the checks against it:
  when both queries are answered before either update, both updates are applied, the
  second on top of the first, and every delivery whose session has a webhook URL posts to it.
\<close>

lemma worker_race_both_commit:
  assumes "worker_contact_read docs msgA contactA = Inr (tokA, dataA, updA)"
    and "worker_contact_read docs msgB contactB = Inr (tokB, dataB, updB)"
  shows "interleave [True, False, True, False] docs (Arrived msgA contactA) (Arrived msgB contactB)
         = (updateDoc (updateDoc docs tokA updA) tokB updB,
            snd (worker_contact_write docs (msg_chat msgA) (tokA, dataA, updA))
            @ snd (worker_contact_write docs (msg_chat msgB) (tokB, dataB, updB)))"
    and "truthy (fld dataA ''webhook_url'') \<Longrightarrow> truthy (fld dataB ''webhook_url'') \<Longrightarrow>
         webhook_calls (snd (interleave [True, False, True, False] docs
                               (Arrived msgA contactA) (Arrived msgB contactB))) = 2"
  using assms by (simp_all add: worker_contact_write_def webhook_calls_def)

text \<open>
  Claim C2 fails in the worker. Between the answer of \<^verbatim>\<open>queryDocs\<close> and \<^verbatim>\<open>updateDoc\<close> the
  handler is suspended, and the update carries no condition on the status. Two valid
  deliveries for the session bound to chat 555 both read it as pending when both queries
  are answered before either update (first conjunct): both write the record, the second
  over the first, and two webhook calls go out. Run one after the other (second conjunct)
  the same deliveries give one commit and one call.
\<close>

theorem worker_race_two_commits:
  "interleave [True, False, True, False]
     [(''T'', [(''status'', JStr ''pending''), (''expected_phone'', JStr ''251911234567''),
               (''webhook_url'', JStr ''https://app.example/cb''),
               (''client_secret'', JStr ''s3cret''), (''expires_at'', JTime 3601000),
               (''chat_id'', JNum 555)])]
     (Arrived \<lparr>msg_chat = 555, msg_from = 42, msg_text = None,
               msg_contact = Some \<lparr>phone_number = ''0911234567'', first_name = ''Abebe'',
                                     user_id = Some 42\<rparr>\<rparr>
        \<lparr>phone_number = ''0911234567'', first_name = ''Abebe'', user_id = Some 42\<rparr>)
     (Arrived \<lparr>msg_chat = 555, msg_from = 42, msg_text = None,
               msg_contact = Some \<lparr>phone_number = ''+251911234567'', first_name = ''Abe'',
                                     user_id = Some 42\<rparr>\<rparr>
        \<lparr>phone_number = ''+251911234567'', first_name = ''Abe'', user_id = Some 42\<rparr>)
   = ([(''T'', [(''status'', JStr ''verified''), (''expected_phone'', JStr ''251911234567''),
                (''webhook_url'', JStr ''https://app.example/cb''),
                (''client_secret'', JStr ''s3cret''), (''expires_at'', JTime 3601000),
                (''chat_id'', JNum 555), (''phone'', JStr ''+251911234567''),
                (''telegram_id'', JNum 42), (''first_name'', JStr ''Abe'')])],
      [WebhookPost (JStr ''https://app.example/cb'')
         [(''event'', JStr ''verification_success''), (''token'', JStr ''T''),
          (''status'', JStr ''verified''), (''phone'', JStr ''0911234567''),
          (''telegram_id'', JNum 42), (''first_name'', JStr ''Abebe''),
          (''secret'', JStr ''s3cret'')],
       Reply 555 VerifiedReturn,
       WebhookPost (JStr ''https://app.example/cb'')
         [(''event'', JStr ''verification_success''), (''token'', JStr ''T''),
          (''status'', JStr ''verified''), (''phone'', JStr ''+251911234567''),
          (''telegram_id'', JNum 42), (''first_name'', JStr ''Abe''),
          (''secret'', JStr ''s3cret'')],
       Reply 555 VerifiedReturn])
   \<and> interleave [True, True, False, False]
     [(''T'', [(''status'', JStr ''pending''), (''expected_phone'', JStr ''251911234567''),
               (''webhook_url'', JStr ''https://app.example/cb''),
               (''client_secret'', JStr ''s3cret''), (''expires_at'', JTime 3601000),
               (''chat_id'', JNum 555)])]
     (Arrived \<lparr>msg_chat = 555, msg_from = 42, msg_text = None,
               msg_contact = Some \<lparr>phone_number = ''0911234567'', first_name = ''Abebe'',
                                     user_id = Some 42\<rparr>\<rparr>
        \<lparr>phone_number = ''0911234567'', first_name = ''Abebe'', user_id = Some 42\<rparr>)
     (Arrived \<lparr>msg_chat = 555, msg_from = 42, msg_text = None,
               msg_contact = Some \<lparr>phone_number = ''+251911234567'', first_name = ''Abe'',
                                     user_id = Some 42\<rparr>\<rparr>
        \<lparr>phone_number = ''+251911234567'', first_name = ''Abe'', user_id = Some 42\<rparr>)
   = ([(''T'', [(''status'', JStr ''verified''), (''expected_phone'', JStr ''251911234567''),
                (''webhook_url'', JStr ''https://app.example/cb''),
                (''client_secret'', JStr ''s3cret''), (''expires_at'', JTime 3601000),
                (''chat_id'', JNum 555), (''phone'', JStr ''0911234567''),
                (''telegram_id'', JNum 42), (''first_name'', JStr ''Abebe'')])],
      [WebhookPost (JStr ''https://app.example/cb'')
         [(''event'', JStr ''verification_success''), (''token'', JStr ''T''),
          (''status'', JStr ''verified''), (''phone'', JStr ''0911234567''),
          (''telegram_id'', JNum 42), (''first_name'', JStr ''Abebe''),
          (''secret'', JStr ''s3cret'')],
       Reply 555 VerifiedReturn,
       Reply 555 NoActiveVerification])"
  by code_simp

end
